theory Spec2Isabelle
  imports Main "HOL-Library.Word"
begin

section \<open>OneDrive/SharePoint upload utilities (extensions/msteams/src/graph-upload.ts)\<close>

text \<open>
  A shallow embedding of the upload module. Every network call of the module goes through
  the injected \<open>fetchFn\<close>; the embedding threads the list of requests issued so far through
  every operation, and the answer to a request is a function of that list. Every
  \<open>throw\<close> and every rejected promise of the source is an \<open>Inl\<close> result.

  Lengths and offsets are JavaScript numbers that stay far below \<open>2^53\<close> (they are bounded
  by the length of a Buffer), so they are natural numbers here. Strings are byte strings
  (UTF-8).
\<close>

subsection \<open>Constants (lines 14-22)\<close>

definition GRAPH_ROOT :: string where
  "GRAPH_ROOT = ''https://graph.microsoft.com/v1.0''"

definition GRAPH_BETA :: string where
  "GRAPH_BETA = ''https://graph.microsoft.com/beta''"

definition GRAPH_SCOPE :: string where
  "GRAPH_SCOPE = ''https://graph.microsoft.com''"

definition SIMPLE_UPLOAD_LIMIT :: nat where
  "SIMPLE_UPLOAD_LIMIT = 4 * 1024 * 1024"

definition RESUMABLE_CHUNK_SIZE :: nat where
  "RESUMABLE_CHUNK_SIZE = 3932160"

subsection \<open>JavaScript primitives used by the module\<close>

type_synonym byte = "8 word"

definition digitChar :: "nat \<Rightarrow> char" where
  "digitChar d = ''0123456789'' ! d"

text \<open>\<open>String(n)\<close> and \<open>${n}\<close> for a non-negative integer: its decimal digits.\<close>

function String_of :: "nat \<Rightarrow> string" where
  "String_of n = (if n < 10 then [digitChar n] else String_of (n div 10) @ [digitChar (n mod 10)])"
  by pat_completeness auto
termination
  by (relation "measure (\<lambda>n. n)") auto

declare String_of.simps [simp del]

text \<open>
  \<open>buffer.subarray(start, end)\<close>: the bytes from \<open>start\<close> up to, not including,
  \<open>end\<close>, both clamped to the length of the buffer.
\<close>

definition subarray :: "byte list \<Rightarrow> nat \<Rightarrow> nat \<Rightarrow> byte list" where
  "subarray buffer start end = take (end - start) (drop start buffer)"

text \<open>
  \<open>encodeURIComponent\<close> on a UTF-8 byte string: the unreserved characters stay, every
  other byte becomes \<open>%XX\<close>. (A string with a lone surrogate, on which the builtin throws,
  has no UTF-8 form and is not a value of \<open>string\<close>.)
\<close>

definition unreservedChars :: string where
  "unreservedChars =
     ''ABCDEFGHIJKLMNOPQRSTUVWXYZabcdefghijklmnopqrstuvwxyz0123456789-_.!~*()'' @ [CHR 0x27]"

definition hexChar :: "nat \<Rightarrow> char" where
  "hexChar d = ''0123456789ABCDEF'' ! d"

definition encodeChar :: "char \<Rightarrow> string" where
  "encodeChar c =
     (if c \<in> set unreservedChars then [c]
      else [CHR ''%'', hexChar (of_char c div 16), hexChar (of_char c mod 16)])"

definition encodeURIComponent :: "string \<Rightarrow> string" where
  "encodeURIComponent s = concat (map encodeChar s)"

text \<open>Truthiness of an optional string: \<open>undefined\<close> and \<open>""\<close> are falsy.\<close>

fun truthy :: "string option \<Rightarrow> bool" where
  "truthy None = False"
| "truthy (Some s) = (s \<noteq> [])"

text \<open>\<open>x ?? d\<close> on an optional value.\<close>

fun orElse :: "'a option \<Rightarrow> 'a \<Rightarrow> 'a" where
  "orElse None d = d"
| "orElse (Some x) d = x"

subsection \<open>Errors, requests and responses\<close>

text \<open>
  \<open>Error m\<close> is \<open>throw new Error(m)\<close>. \<open>Rejected r\<close> is a promise of a collaborator
  (\<open>fetchFn\<close>, \<open>res.json()\<close>, \<open>res.text()\<close>) rejected with reason \<open>r\<close>, which the
  module lets propagate unchanged.
\<close>

datatype error = Error string | Rejected string

text \<open>The values handed to \<open>JSON.stringify\<close> for request bodies.\<close>

datatype json = JString string | JArray "json list" | JObject "(string \<times> json) list"

datatype request_body = Bytes "byte list" | JSON_stringify json

record request =
  url :: string
  http_method :: "string option"
  headers :: "(string \<times> string) list"
  body :: "request_body option"

text \<open>
  The parsed body of a response, \<open>await res.json()\<close>, at the types the module
  declares for it in its casts: the top-level string properties \<open>id\<close>, \<open>webUrl\<close>,
  \<open>name\<close>, \<open>uploadUrl\<close>, \<open>eTag\<close>, \<open>webDavUrl\<close>, the \<open>link\<close> object
  and the \<open>value\<close> array of member entries. A property that is absent is
  \<open>None\<close>; properties the module never reads are left out. A body that is not JSON
  makes \<open>res.json()\<close> reject (\<open>bodyJson\<close> is then \<open>Inl\<close>). Bodies whose
  properties have other types than the declared ones are not values of this type.
\<close>

record link_json =
  link_webUrl :: "string option"

record member_json =
  userId :: "string option"
  displayName :: "string option"

record response_json =
  j_id :: "string option"
  j_webUrl :: "string option"
  j_name :: "string option"
  j_uploadUrl :: "string option"
  j_eTag :: "string option"
  j_webDavUrl :: "string option"
  j_link :: "link_json option"
  j_value :: "member_json list option"

record response =
  status :: nat
  statusText :: string
  bodyText :: "error + string"
  bodyJson :: "error + response_json"

text \<open>\<open>res.ok\<close>: the status is in the range 200-299.\<close>

definition ok :: "response \<Rightarrow> bool" where
  "ok res = (200 \<le> status res \<and> status res \<le> 299)"

text \<open>\<open>await res.text().catch(() => "")\<close>\<close>

definition textOrEmpty :: "response \<Rightarrow> string" where
  "textOrEmpty res = (case bodyText res of Inl e \<Rightarrow> [] | Inr t \<Rightarrow> t)"

text \<open>
  The injected \<open>fetchFn\<close>: given all requests issued so far, the current one last, it
  answers with a response or rejects.
\<close>

type_synonym fetchFn = "request list \<Rightarrow> error + response"

definition fetch :: "fetchFn \<Rightarrow> request \<Rightarrow> request list \<Rightarrow> (error + response) \<times> request list" where
  "fetch fetchFn req log = (fetchFn (log @ [req]), log @ [req])"

text \<open>
  The token provider is declared outside this module
  (\<open>MSTeamsAccessTokenProvider\<close>); \<open>getAccessToken\<close> is taken as a parameter
  that maps the requested scope to a bearer token.
\<close>

type_synonym tokenProvider = "string \<Rightarrow> string"

record OneDriveUploadResult =
  item_id :: string
  item_webUrl :: string
  item_name :: string

subsection \<open>uploadViaResumableSession (lines 34-79)\<close>

text \<open>\<open>end = Math.min(offset + RESUMABLE_CHUNK_SIZE, totalSize)\<close>\<close>

definition chunkEnd :: "nat \<Rightarrow> nat \<Rightarrow> nat" where
  "chunkEnd offset totalSize = min (offset + RESUMABLE_CHUNK_SIZE) totalSize"

text \<open>
  The arguments of the \<open>fetchFn\<close> call of one loop iteration (lines 44-54). The loop
  builds it only when \<open>offset < totalSize\<close>, where \<open>end\<close> is at least 1.
\<close>

definition chunkRequest :: "string \<Rightarrow> byte list \<Rightarrow> nat \<Rightarrow> request" where
  "chunkRequest uploadUrl buffer offset =
     (let totalSize = length buffer;
          end = chunkEnd offset totalSize;
          chunk = subarray buffer offset end
      in \<lparr>url = uploadUrl,
          http_method = Some ''PUT'',
          headers =
            [(''Content-Length'', String_of (length chunk)),
             (''Content-Range'',
                ''bytes '' @ String_of offset @ ''-'' @ String_of (end - 1) @ ''/'' @ String_of totalSize)],
          body = Some (Bytes chunk)\<rparr>)"

text \<open>The handling of a 200 or 201 answer (lines 57-65).\<close>

definition completionResult :: "response \<Rightarrow> error + OneDriveUploadResult" where
  "completionResult res =
     (case bodyJson res of
        Inl e \<Rightarrow> Inl e
      | Inr data \<Rightarrow>
          if \<not> truthy (j_id data) \<or> \<not> truthy (j_webUrl data) \<or> \<not> truthy (j_name data)
          then Inl (Error ''Resumable upload final response missing required fields'')
          else Inr \<lparr>item_id = the (j_id data), item_webUrl = the (j_webUrl data),
                    item_name = the (j_name data)\<rparr>)"

text \<open>The message of the error thrown on a status other than 200, 201, 202 (lines 69-72).\<close>

definition chunkFailure :: "nat \<Rightarrow> response \<Rightarrow> error" where
  "chunkFailure offset res =
     Error (''Resumable upload failed at byte '' @ String_of offset @ '': '' @
            String_of (status res) @ '' '' @ statusText res @ '' - '' @ textOrEmpty res)"

text \<open>The \<open>while (offset < totalSize)\<close> loop, with \<open>offset\<close> as its variable.\<close>

function resumableLoop ::
  "fetchFn \<Rightarrow> string \<Rightarrow> byte list \<Rightarrow> nat \<Rightarrow> request list
     \<Rightarrow> (error + OneDriveUploadResult) \<times> request list" where
  "resumableLoop fetchFn uploadUrl buffer offset log =
     (if offset < length buffer then
        (case fetch fetchFn (chunkRequest uploadUrl buffer offset) log of
           (Inl e, log') \<Rightarrow> (Inl e, log')
         | (Inr res, log') \<Rightarrow>
             if status res = 200 \<or> status res = 201 then (completionResult res, log')
             else if status res \<noteq> 202 then (Inl (chunkFailure offset res), log')
             else resumableLoop fetchFn uploadUrl buffer (chunkEnd offset (length buffer)) log')
      else (Inl (Error ''Resumable upload finished without a completion response''), log))"
  by pat_completeness auto
termination
  by (relation "measure (\<lambda>(fetchFn, uploadUrl, buffer, offset, log). length buffer - offset)")
     (auto simp: chunkEnd_def RESUMABLE_CHUNK_SIZE_def)

declare resumableLoop.simps [simp del]

definition uploadViaResumableSession ::
  "fetchFn \<Rightarrow> string \<Rightarrow> byte list \<Rightarrow> request list
     \<Rightarrow> (error + OneDriveUploadResult) \<times> request list" where
  "uploadViaResumableSession fetchFn uploadUrl buffer log =
     resumableLoop fetchFn uploadUrl buffer 0 log"

subsection \<open>uploadToOneDrive (lines 85-160)\<close>

definition oneDriveSessionRequest :: "string \<Rightarrow> string \<Rightarrow> request" where
  "oneDriveSessionRequest token filename =
     \<lparr>url = GRAPH_ROOT @ ''/me/drive/root:'' @ (''/OpenClawShared/'' @ encodeURIComponent filename)
              @ '':/createUploadSession'',
      http_method = Some ''POST'',
      headers = [(''Authorization'', ''Bearer '' @ token), (''Content-Type'', ''application/json'')],
      body = Some (JSON_stringify (JObject [(''item'', JObject [(''name'', JString filename)])]))\<rparr>"

definition oneDriveContentRequest :: "string \<Rightarrow> string \<Rightarrow> string option \<Rightarrow> byte list \<Rightarrow> request" where
  "oneDriveContentRequest token filename contentType buffer =
     \<lparr>url = GRAPH_ROOT @ ''/me/drive/root:'' @ (''/OpenClawShared/'' @ encodeURIComponent filename)
              @ '':/content'',
      http_method = Some ''PUT'',
      headers = [(''Authorization'', ''Bearer '' @ token),
                 (''Content-Type'', orElse contentType ''application/octet-stream'')],
      body = Some (Bytes buffer)\<rparr>"

text \<open>The message \<open>`<what> failed: ${res.status} ${res.statusText} - ${body}`\<close>.\<close>

definition httpFailure :: "string \<Rightarrow> response \<Rightarrow> error" where
  "httpFailure what res =
     Error (what @ '' failed: '' @ String_of (status res) @ '' '' @ statusText res @ '' - '' @
            textOrEmpty res)"

definition uploadToOneDrive ::
  "fetchFn \<Rightarrow> tokenProvider \<Rightarrow> byte list \<Rightarrow> string \<Rightarrow> string option \<Rightarrow> request list
     \<Rightarrow> (error + OneDriveUploadResult) \<times> request list" where
  "uploadToOneDrive fetchFn tokenProvider buffer filename contentType log =
     (let token = tokenProvider GRAPH_SCOPE in
      if length buffer > SIMPLE_UPLOAD_LIMIT then
        (case fetch fetchFn (oneDriveSessionRequest token filename) log of
           (Inl e, log') \<Rightarrow> (Inl e, log')
         | (Inr sessionRes, log') \<Rightarrow>
             if \<not> ok sessionRes
             then (Inl (httpFailure ''OneDrive create upload session'' sessionRes), log')
             else (case bodyJson sessionRes of
                     Inl e \<Rightarrow> (Inl e, log')
                   | Inr session \<Rightarrow>
                       if \<not> truthy (j_uploadUrl session)
                       then (Inl (Error ''OneDrive create upload session response missing uploadUrl''),
                             log')
                       else uploadViaResumableSession fetchFn (the (j_uploadUrl session)) buffer log'))
      else
        (case fetch fetchFn (oneDriveContentRequest token filename contentType buffer) log of
           (Inl e, log') \<Rightarrow> (Inl e, log')
         | (Inr res, log') \<Rightarrow>
             if \<not> ok res then (Inl (httpFailure ''OneDrive upload'' res), log')
             else (case bodyJson res of
                     Inl e \<Rightarrow> (Inl e, log')
                   | Inr data \<Rightarrow>
                       if \<not> truthy (j_id data) \<or> \<not> truthy (j_webUrl data) \<or> \<not> truthy (j_name data)
                       then (Inl (Error ''OneDrive upload response missing required fields''), log')
                       else (Inr \<lparr>item_id = the (j_id data), item_webUrl = the (j_webUrl data),
                                   item_name = the (j_name data)\<rparr>, log'))))"

subsection \<open>createSharingLink and uploadAndShareOneDrive (lines 170-248)\<close>

record OneDriveSharingLink =
  link_url :: string

text \<open>
  The scope of a OneDrive link is the string \<open>"organization"\<close> or \<open>"anonymous"\<close>,
  passed on as it is; \<open>organization\<close> when absent.
\<close>

definition oneDriveLinkRequest :: "string \<Rightarrow> string \<Rightarrow> string option \<Rightarrow> request" where
  "oneDriveLinkRequest token itemId scope =
     \<lparr>url = GRAPH_ROOT @ ''/me/drive/items/'' @ itemId @ ''/createLink'',
      http_method = Some ''POST'',
      headers = [(''Authorization'', ''Bearer '' @ token), (''Content-Type'', ''application/json'')],
      body = Some (JSON_stringify (JObject
        [(''type'', JString ''view''), (''scope'', JString (orElse scope ''organization''))]))\<rparr>"

definition createSharingLink ::
  "fetchFn \<Rightarrow> tokenProvider \<Rightarrow> string \<Rightarrow> string option \<Rightarrow> request list
     \<Rightarrow> (error + OneDriveSharingLink) \<times> request list" where
  "createSharingLink fetchFn tokenProvider itemId scope log =
     (let token = tokenProvider GRAPH_SCOPE in
      case fetch fetchFn (oneDriveLinkRequest token itemId scope) log of
        (Inl e, log') \<Rightarrow> (Inl e, log')
      | (Inr res, log') \<Rightarrow>
          if \<not> ok res then (Inl (httpFailure ''Create sharing link'' res), log')
          else (case bodyJson res of
                  Inl e \<Rightarrow> (Inl e, log')
                | Inr data \<Rightarrow>
                    (case j_link data of
                       None \<Rightarrow> (Inl (Error ''Create sharing link response missing webUrl''), log')
                     | Some link \<Rightarrow>
                         if \<not> truthy (link_webUrl link)
                         then (Inl (Error ''Create sharing link response missing webUrl''), log')
                         else (Inr \<lparr>link_url = the (link_webUrl link)\<rparr>, log'))))"

record ShareResult =
  share_itemId :: string
  share_webUrl :: string
  shareUrl :: string
  share_name :: string

definition uploadAndShareOneDrive ::
  "fetchFn \<Rightarrow> tokenProvider \<Rightarrow> byte list \<Rightarrow> string \<Rightarrow> string option \<Rightarrow> string option
     \<Rightarrow> request list \<Rightarrow> (error + ShareResult) \<times> request list" where
  "uploadAndShareOneDrive fetchFn tokenProvider buffer filename contentType scope log =
     (case uploadToOneDrive fetchFn tokenProvider buffer filename contentType log of
        (Inl e, log1) \<Rightarrow> (Inl e, log1)
      | (Inr uploaded, log1) \<Rightarrow>
          (case createSharingLink fetchFn tokenProvider (item_id uploaded) scope log1 of
             (Inl e, log2) \<Rightarrow> (Inl e, log2)
           | (Inr shareLink, log2) \<Rightarrow>
               (Inr \<lparr>share_itemId = item_id uploaded, share_webUrl = item_webUrl uploaded,
                     shareUrl = link_url shareLink, share_name = item_name uploaded\<rparr>, log2)))"

subsection \<open>uploadToSharePoint (lines 260-339)\<close>

definition sharePointSessionRequest :: "string \<Rightarrow> string \<Rightarrow> string \<Rightarrow> request" where
  "sharePointSessionRequest token siteId filename =
     \<lparr>url = GRAPH_ROOT @ ''/sites/'' @ siteId @ ''/drive/root:''
              @ (''/OpenClawShared/'' @ encodeURIComponent filename) @ '':/createUploadSession'',
      http_method = Some ''POST'',
      headers = [(''Authorization'', ''Bearer '' @ token), (''Content-Type'', ''application/json'')],
      body = Some (JSON_stringify (JObject [(''item'', JObject [(''name'', JString filename)])]))\<rparr>"

definition sharePointContentRequest ::
  "string \<Rightarrow> string \<Rightarrow> string \<Rightarrow> string option \<Rightarrow> byte list \<Rightarrow> request" where
  "sharePointContentRequest token siteId filename contentType buffer =
     \<lparr>url = GRAPH_ROOT @ ''/sites/'' @ siteId @ ''/drive/root:''
              @ (''/OpenClawShared/'' @ encodeURIComponent filename) @ '':/content'',
      http_method = Some ''PUT'',
      headers = [(''Authorization'', ''Bearer '' @ token),
                 (''Content-Type'', orElse contentType ''application/octet-stream'')],
      body = Some (Bytes buffer)\<rparr>"

definition uploadToSharePoint ::
  "fetchFn \<Rightarrow> tokenProvider \<Rightarrow> byte list \<Rightarrow> string \<Rightarrow> string option \<Rightarrow> string \<Rightarrow> request list
     \<Rightarrow> (error + OneDriveUploadResult) \<times> request list" where
  "uploadToSharePoint fetchFn tokenProvider buffer filename contentType siteId log =
     (let token = tokenProvider GRAPH_SCOPE in
      if length buffer > SIMPLE_UPLOAD_LIMIT then
        (case fetch fetchFn (sharePointSessionRequest token siteId filename) log of
           (Inl e, log') \<Rightarrow> (Inl e, log')
         | (Inr sessionRes, log') \<Rightarrow>
             if \<not> ok sessionRes
             then (Inl (httpFailure ''SharePoint create upload session'' sessionRes), log')
             else (case bodyJson sessionRes of
                     Inl e \<Rightarrow> (Inl e, log')
                   | Inr session \<Rightarrow>
                       if \<not> truthy (j_uploadUrl session)
                       then (Inl (Error ''SharePoint create upload session response missing uploadUrl''),
                             log')
                       else uploadViaResumableSession fetchFn (the (j_uploadUrl session)) buffer log'))
      else
        (case fetch fetchFn (sharePointContentRequest token siteId filename contentType buffer) log of
           (Inl e, log') \<Rightarrow> (Inl e, log')
         | (Inr res, log') \<Rightarrow>
             if \<not> ok res then (Inl (httpFailure ''SharePoint upload'' res), log')
             else (case bodyJson res of
                     Inl e \<Rightarrow> (Inl e, log')
                   | Inr data \<Rightarrow>
                       if \<not> truthy (j_id data) \<or> \<not> truthy (j_webUrl data) \<or> \<not> truthy (j_name data)
                       then (Inl (Error ''SharePoint upload response missing required fields''), log')
                       else (Inr \<lparr>item_id = the (j_id data), item_webUrl = the (j_webUrl data),
                                   item_name = the (j_name data)\<rparr>, log'))))"

subsection \<open>getDriveItemProperties (lines 366-400)\<close>

record DriveItemProperties =
  eTag :: string
  webDavUrl :: string
  props_name :: string

definition driveItemRequest :: "string \<Rightarrow> string \<Rightarrow> string \<Rightarrow> request" where
  "driveItemRequest token siteId itemId =
     \<lparr>url = GRAPH_ROOT @ ''/sites/'' @ siteId @ ''/drive/items/'' @ itemId
              @ ''?$select=eTag,webDavUrl,name'',
      http_method = None,
      headers = [(''Authorization'', ''Bearer '' @ token)],
      body = None\<rparr>"

definition getDriveItemProperties ::
  "fetchFn \<Rightarrow> tokenProvider \<Rightarrow> string \<Rightarrow> string \<Rightarrow> request list
     \<Rightarrow> (error + DriveItemProperties) \<times> request list" where
  "getDriveItemProperties fetchFn tokenProvider siteId itemId log =
     (let token = tokenProvider GRAPH_SCOPE in
      case fetch fetchFn (driveItemRequest token siteId itemId) log of
        (Inl e, log') \<Rightarrow> (Inl e, log')
      | (Inr res, log') \<Rightarrow>
          if \<not> ok res then (Inl (httpFailure ''Get driveItem properties'' res), log')
          else (case bodyJson res of
                  Inl e \<Rightarrow> (Inl e, log')
                | Inr data \<Rightarrow>
                    if \<not> truthy (j_eTag data) \<or> \<not> truthy (j_webDavUrl data) \<or> \<not> truthy (j_name data)
                    then (Inl (Error
                      ''DriveItem response missing required properties (eTag, webDavUrl, or name)''),
                      log')
                    else (Inr \<lparr>eTag = the (j_eTag data), webDavUrl = the (j_webDavUrl data),
                                props_name = the (j_name data)\<rparr>, log')))"

subsection \<open>getChatMembers (lines 406-436)\<close>

record ChatMember =
  aadObjectId :: string
  member_displayName :: "string option"

definition chatMembersRequest :: "string \<Rightarrow> string \<Rightarrow> request" where
  "chatMembersRequest token chatId =
     \<lparr>url = GRAPH_ROOT @ ''/chats/'' @ chatId @ ''/members'',
      http_method = None,
      headers = [(''Authorization'', ''Bearer '' @ token)],
      body = None\<rparr>"

definition getChatMembers ::
  "fetchFn \<Rightarrow> tokenProvider \<Rightarrow> string \<Rightarrow> request list \<Rightarrow> (error + ChatMember list) \<times> request list" where
  "getChatMembers fetchFn tokenProvider chatId log =
     (let token = tokenProvider GRAPH_SCOPE in
      case fetch fetchFn (chatMembersRequest token chatId) log of
        (Inl e, log') \<Rightarrow> (Inl e, log')
      | (Inr res, log') \<Rightarrow>
          if \<not> ok res then (Inl (httpFailure ''Get chat members'' res), log')
          else (case bodyJson res of
                  Inl e \<Rightarrow> (Inl e, log')
                | Inr data \<Rightarrow>
                    (Inr (filter (\<lambda>m. aadObjectId m \<noteq> [])
                            (map (\<lambda>m. \<lparr>aadObjectId = orElse (userId m) [],
                                        member_displayName = displayName m\<rparr>)
                                 (orElse (j_value data) []))),
                     log')))"

subsection \<open>createSharePointSharingLink (lines 443-500)\<close>

datatype sharePointScope = organization | users

text \<open>\<open>params.recipientObjectIds?.length\<close> is truthy: the list is given and not empty.\<close>

fun hasRecipients :: "string list option \<Rightarrow> bool" where
  "hasRecipients None = False"
| "hasRecipients (Some ids) = (length ids \<noteq> 0)"

text \<open>The object \<open>body\<close> built in lines 460-468.\<close>

definition sharingLinkBody :: "sharePointScope \<Rightarrow> string list option \<Rightarrow> json" where
  "sharingLinkBody scope recipientObjectIds =
     JObject
       ([(''type'', JString ''view''),
         (''scope'', JString (if scope = users then ''users'' else ''organization''))]
        @ (if scope = users \<and> hasRecipients recipientObjectIds
           then [(''recipients'',
                  JArray (map (\<lambda>id. JObject [(''objectId'', JString id)]) (the recipientObjectIds)))]
           else []))"

definition sharingLinkRequest ::
  "string \<Rightarrow> string \<Rightarrow> string \<Rightarrow> sharePointScope \<Rightarrow> string list option \<Rightarrow> request" where
  "sharingLinkRequest token siteId itemId scope recipientObjectIds =
     (let apiRoot = (if scope = users then GRAPH_BETA else GRAPH_ROOT) in
      \<lparr>url = apiRoot @ ''/sites/'' @ siteId @ ''/drive/items/'' @ itemId @ ''/createLink'',
       http_method = Some ''POST'',
       headers = [(''Authorization'', ''Bearer '' @ token), (''Content-Type'', ''application/json'')],
       body = Some (JSON_stringify (sharingLinkBody scope recipientObjectIds))\<rparr>)"

definition createSharePointSharingLink ::
  "fetchFn \<Rightarrow> tokenProvider \<Rightarrow> string \<Rightarrow> string \<Rightarrow> sharePointScope option \<Rightarrow> string list option
     \<Rightarrow> request list \<Rightarrow> (error + OneDriveSharingLink) \<times> request list" where
  "createSharePointSharingLink fetchFn tokenProvider siteId itemId scopeParam recipientObjectIds log =
     (let token = tokenProvider GRAPH_SCOPE;
          scope = orElse scopeParam organization
      in case fetch fetchFn (sharingLinkRequest token siteId itemId scope recipientObjectIds) log of
           (Inl e, log') \<Rightarrow> (Inl e, log')
         | (Inr res, log') \<Rightarrow>
             if \<not> ok res then (Inl (httpFailure ''Create SharePoint sharing link'' res), log')
             else (case bodyJson res of
                     Inl e \<Rightarrow> (Inl e, log')
                   | Inr data \<Rightarrow>
                       (case j_link data of
                          None \<Rightarrow>
                            (Inl (Error ''Create SharePoint sharing link response missing webUrl''), log')
                        | Some link \<Rightarrow>
                            if \<not> truthy (link_webUrl link)
                            then (Inl (Error ''Create SharePoint sharing link response missing webUrl''),
                                  log')
                            else (Inr \<lparr>link_url = the (link_webUrl link)\<rparr>, log'))))"

subsection \<open>uploadAndShareSharePoint (lines 512-575)\<close>

text \<open>
  Step 2, lines 538-557: the scope and the recipients for the link. The \<open>try\<close> block
  catches whatever \<open>getChatMembers\<close> throws; its request stays issued.
\<close>

definition determineScope ::
  "fetchFn \<Rightarrow> tokenProvider \<Rightarrow> string option \<Rightarrow> bool option \<Rightarrow> request list
     \<Rightarrow> (sharePointScope \<times> string list option) \<times> request list" where
  "determineScope fetchFn tokenProvider chatId usePerUserSharing log =
     (if usePerUserSharing = Some True \<and> truthy chatId then
        (case getChatMembers fetchFn tokenProvider (the chatId) log of
           (Inr members, log') \<Rightarrow>
             if length members > 0
             then ((users, Some (map aadObjectId members)), log')
             else ((organization, None), log')
         | (Inl e, log') \<Rightarrow> ((organization, None), log'))
      else ((organization, None), log))"

definition uploadAndShareSharePoint ::
  "fetchFn \<Rightarrow> tokenProvider \<Rightarrow> byte list \<Rightarrow> string \<Rightarrow> string option \<Rightarrow> string \<Rightarrow> string option
     \<Rightarrow> bool option \<Rightarrow> request list \<Rightarrow> (error + ShareResult) \<times> request list" where
  "uploadAndShareSharePoint fetchFn tokenProvider buffer filename contentType siteId chatId
       usePerUserSharing log =
     (case uploadToSharePoint fetchFn tokenProvider buffer filename contentType siteId log of
        (Inl e, log1) \<Rightarrow> (Inl e, log1)
      | (Inr uploaded, log1) \<Rightarrow>
          (case determineScope fetchFn tokenProvider chatId usePerUserSharing log1 of
             ((scope, recipientObjectIds), log2) \<Rightarrow>
               (case createSharePointSharingLink fetchFn tokenProvider siteId (item_id uploaded)
                       (Some scope) recipientObjectIds log2 of
                  (Inl e, log3) \<Rightarrow> (Inl e, log3)
                | (Inr shareLink, log3) \<Rightarrow>
                    (Inr \<lparr>share_itemId = item_id uploaded, share_webUrl = item_webUrl uploaded,
                          shareUrl = link_url shareLink, share_name = item_name uploaded\<rparr>, log3))))"

subsection \<open>The chunk plan of a payload\<close>

text \<open>
  The number of chunks a payload of \<open>totalSize\<close> bytes is cut into, the offset of the
  \<open>j\<close>-th chunk, and the first \<open>k\<close> chunk submissions of a transfer.
\<close>

definition chunkCount :: "nat \<Rightarrow> nat" where
  "chunkCount totalSize = (totalSize + RESUMABLE_CHUNK_SIZE - 1) div RESUMABLE_CHUNK_SIZE"

definition chunkOffset :: "nat \<Rightarrow> nat" where
  "chunkOffset j = j * RESUMABLE_CHUNK_SIZE"

definition chunkRequests :: "string \<Rightarrow> byte list \<Rightarrow> nat \<Rightarrow> request list" where
  "chunkRequests uploadUrl buffer k = map (\<lambda>j. chunkRequest uploadUrl buffer (chunkOffset j)) [0..<k]"

text \<open>
  \<open>accepted fetchFn log uploadUrl buffer k\<close>: each of the first \<open>k\<close> chunk submissions,
  issued in order after \<open>log\<close>, is answered with status 202.
\<close>

definition answerTo :: "fetchFn \<Rightarrow> request list \<Rightarrow> string \<Rightarrow> byte list \<Rightarrow> nat \<Rightarrow> error + response" where
  "answerTo fetchFn log uploadUrl buffer j = fetchFn (log @ chunkRequests uploadUrl buffer (Suc j))"

fun isAccepted :: "error + response \<Rightarrow> bool" where
  "isAccepted (Inl e) = False"
| "isAccepted (Inr res) = (status res = 202)"

definition accepted :: "fetchFn \<Rightarrow> request list \<Rightarrow> string \<Rightarrow> byte list \<Rightarrow> nat \<Rightarrow> bool" where
  "accepted fetchFn log uploadUrl buffer k =
     list_all (\<lambda>j. isAccepted (answerTo fetchFn log uploadUrl buffer j)) [0..<k]"

subsection \<open>Scripted servers for the worked examples\<close>

text \<open>A server that answers the \<open>i\<close>-th request it sees with the \<open>i\<close>-th entry of a script.\<close>

definition scripted :: "(error + response) list \<Rightarrow> fetchFn" where
  "scripted answers log =
     (if 1 \<le> length log \<and> length log \<le> length answers then answers ! (length log - 1)
      else Inl (Rejected ''no answer''))"

definition noFields :: response_json where
  "noFields = \<lparr>j_id = None, j_webUrl = None, j_name = None, j_uploadUrl = None, j_eTag = None,
               j_webDavUrl = None, j_link = None, j_value = None\<rparr>"

definition plainAnswer :: "nat \<Rightarrow> string \<Rightarrow> string \<Rightarrow> error + response" where
  "plainAnswer st stText txt =
     Inr \<lparr>status = st, statusText = stText, bodyText = Inr txt,
          bodyJson = Inl (Rejected ''SyntaxError'')\<rparr>"

definition jsonAnswer :: "nat \<Rightarrow> response_json \<Rightarrow> error + response" where
  "jsonAnswer st data =
     Inr \<lparr>status = st, statusText = ''OK'', bodyText = Inr [], bodyJson = Inr data\<rparr>"

definition sampleToken :: tokenProvider where
  "sampleToken scope = ''token''"

text \<open>A payload of 10 MiB, cut into three chunks, and the transfers of three scenarios.\<close>

definition tenMiB :: "byte list" where
  "tenMiB = replicate 10485760 0"

definition uploadedItem :: response_json where
  "uploadedItem = noFields\<lparr>j_id := Some ''x'', j_webUrl := Some ''u'', j_name := Some ''f''\<rparr>"

definition scenario1 :: fetchFn where
  "scenario1 = scripted [plainAnswer 202 ''Accepted'' [], plainAnswer 202 ''Accepted'' [],
                         jsonAnswer 201 uploadedItem]"

definition earlyCompletion :: fetchFn where
  "earlyCompletion = scripted [jsonAnswer 201 uploadedItem]"

definition scenario5 :: fetchFn where
  "scenario5 = scripted [plainAnswer 202 ''Accepted'' [],
                         plainAnswer 500 ''Internal Server Error'' ''boom'']"

definition scenario6 :: fetchFn where
  "scenario6 = scripted [plainAnswer 202 ''Accepted'' [], plainAnswer 202 ''Accepted'' [],
                         plainAnswer 202 ''Accepted'' []]"

text \<open>
  The length the plan gives the \<open>j\<close>-th chunk: the chunk constant for every chunk but
  the last, and what is left of the payload for the last.
\<close>

definition plannedLength :: "nat \<Rightarrow> nat \<Rightarrow> nat" where
  "plannedLength totalSize j =
     (if Suc j < chunkCount totalSize then RESUMABLE_CHUNK_SIZE
      else if totalSize mod RESUMABLE_CHUNK_SIZE = 0 then RESUMABLE_CHUNK_SIZE
      else totalSize mod RESUMABLE_CHUNK_SIZE)"

text \<open>A payload of 1 MiB, and servers that create a session first.\<close>

definition oneMiB :: "byte list" where
  "oneMiB = replicate 1048576 0"

definition sessionAnswer :: "error + response" where
  "sessionAnswer = jsonAnswer 200 (noFields\<lparr>j_uploadUrl := Some ''https://up''\<rparr>)"

definition abortingServer :: fetchFn where
  "abortingServer = scripted [sessionAnswer, plainAnswer 500 ''Internal Server Error'' ''boom'']"

definition scenario1WithSession :: fetchFn where
  "scenario1WithSession = scripted [sessionAnswer, plainAnswer 202 ''Accepted'' [],
      plainAnswer 202 ''Accepted'' [], jsonAnswer 201 uploadedItem]"

definition scenario2 :: fetchFn where
  "scenario2 = scripted [jsonAnswer 200 uploadedItem]"

definition sessionRefused :: fetchFn where
  "sessionRefused = scripted [plainAnswer 500 ''Internal Server Error'' ''boom'']"

text \<open>Response bodies that lack a field, and the entries of a members response.\<close>

definition itemWithoutName :: response_json where
  "itemWithoutName = noFields\<lparr>j_id := Some ''x'', j_webUrl := Some ''u''\<rparr>"

definition propsWithoutETag :: response_json where
  "propsWithoutETag = noFields\<lparr>j_webDavUrl := Some ''d'', j_name := Some ''f''\<rparr>"

definition namelessCompletion :: fetchFn where
  "namelessCompletion = scripted [jsonAnswer 200 itemWithoutName]"

definition memberEntries :: "member_json list" where
  "memberEntries =
     [\<lparr>userId = Some ''a1'', displayName = Some ''Ann''\<rparr>,
      \<lparr>userId = None, displayName = Some ''Bot''\<rparr>,
      \<lparr>userId = Some [], displayName = None\<rparr>,
      \<lparr>userId = Some ''c3'', displayName = None\<rparr>]"

text \<open>Servers for the composition: the upload, the member lookup, the link.\<close>

definition linkAnswer :: "error + response" where
  "linkAnswer = jsonAnswer 200 (noFields\<lparr>j_link := Some \<lparr>link_webUrl = Some ''https://share''\<rparr>\<rparr>)"

definition scenario3 :: fetchFn where
  "scenario3 = scripted [jsonAnswer 200 uploadedItem, jsonAnswer 200 (noFields\<lparr>j_value := Some []\<rparr>),
                         linkAnswer]"

definition scenario4 :: fetchFn where
  "scenario4 = scripted [jsonAnswer 200 uploadedItem, plainAnswer 403 ''Forbidden'' ''denied'',
                         linkAnswer]"

definition groupChat :: fetchFn where
  "groupChat = scripted [jsonAnswer 200 uploadedItem,
                         jsonAnswer 200 (noFields\<lparr>j_value := Some memberEntries\<rparr>), linkAnswer]"

section \<open>Properties\<close>

subsection \<open>The loop and the chunk plan\<close>

lemma chunk_size_pos: "0 < RESUMABLE_CHUNK_SIZE"
  by (simp add: RESUMABLE_CHUNK_SIZE_def)

lemma chunkCount_less_iff: "j < chunkCount totalSize \<longleftrightarrow> chunkOffset j < totalSize"
proof -
  have "j < chunkCount totalSize \<longleftrightarrow> Suc j \<le> (totalSize + RESUMABLE_CHUNK_SIZE - 1) div RESUMABLE_CHUNK_SIZE"
    by (simp add: chunkCount_def Suc_le_eq)
  also have "\<dots> \<longleftrightarrow> Suc j * RESUMABLE_CHUNK_SIZE \<le> totalSize + RESUMABLE_CHUNK_SIZE - 1"
    by (simp only: less_eq_div_iff_mult_less_eq [OF chunk_size_pos])
  also have "\<dots> \<longleftrightarrow> chunkOffset j < totalSize"
    using chunk_size_pos by (auto simp: chunkOffset_def)
  finally show ?thesis .
qed

lemma chunkCount_covers: "totalSize \<le> chunkOffset (chunkCount totalSize)"
  using chunkCount_less_iff [of "chunkCount totalSize" totalSize] by simp

lemma chunkEnd_next:
  "chunkEnd (chunkOffset j) totalSize = min (chunkOffset (Suc j)) totalSize"
  by (simp add: chunkEnd_def chunkOffset_def add.commute)

lemma chunkRequests_Suc:
  "chunkRequests uploadUrl buffer (Suc k) =
     chunkRequests uploadUrl buffer k @ [chunkRequest uploadUrl buffer (chunkOffset k)]"
  by (simp add: chunkRequests_def)

lemma accepted_Suc:
  "accepted fetchFn log uploadUrl buffer (Suc k) \<longleftrightarrow>
     accepted fetchFn log uploadUrl buffer k \<and> isAccepted (answerTo fetchFn log uploadUrl buffer k)"
  by (simp add: accepted_def)

lemma loop_exhausted:
  "\<not> offset < length buffer \<Longrightarrow>
   resumableLoop fetchFn uploadUrl buffer offset log =
     (Inl (Error ''Resumable upload finished without a completion response''), log)"
  by (subst resumableLoop.simps) simp

lemma loop_rejected:
  "offset < length buffer \<Longrightarrow> fetchFn (log @ [chunkRequest uploadUrl buffer offset]) = Inl e \<Longrightarrow>
   resumableLoop fetchFn uploadUrl buffer offset log =
     (Inl e, log @ [chunkRequest uploadUrl buffer offset])"
  by (subst resumableLoop.simps) (simp add: fetch_def)

lemma loop_completed:
  "offset < length buffer \<Longrightarrow> fetchFn (log @ [chunkRequest uploadUrl buffer offset]) = Inr res \<Longrightarrow>
   status res = 200 \<or> status res = 201 \<Longrightarrow>
   resumableLoop fetchFn uploadUrl buffer offset log =
     (completionResult res, log @ [chunkRequest uploadUrl buffer offset])"
  by (subst resumableLoop.simps) (auto simp add: fetch_def)

lemma loop_failed:
  "offset < length buffer \<Longrightarrow> fetchFn (log @ [chunkRequest uploadUrl buffer offset]) = Inr res \<Longrightarrow>
   status res \<noteq> 200 \<Longrightarrow> status res \<noteq> 201 \<Longrightarrow> status res \<noteq> 202 \<Longrightarrow>
   resumableLoop fetchFn uploadUrl buffer offset log =
     (Inl (chunkFailure offset res), log @ [chunkRequest uploadUrl buffer offset])"
  by (subst resumableLoop.simps) (simp add: fetch_def)

lemma loop_continued:
  "offset < length buffer \<Longrightarrow> fetchFn (log @ [chunkRequest uploadUrl buffer offset]) = Inr res \<Longrightarrow>
   status res = 202 \<Longrightarrow>
   resumableLoop fetchFn uploadUrl buffer offset log =
     resumableLoop fetchFn uploadUrl buffer (chunkEnd offset (length buffer))
       (log @ [chunkRequest uploadUrl buffer offset])"
  by (subst resumableLoop.simps) (simp add: fetch_def)

lemma loop_after_accepted:
  "accepted fetchFn log uploadUrl buffer k \<Longrightarrow> k \<le> chunkCount (length buffer) \<Longrightarrow>
   resumableLoop fetchFn uploadUrl buffer 0 log =
     resumableLoop fetchFn uploadUrl buffer (min (chunkOffset k) (length buffer))
       (log @ chunkRequests uploadUrl buffer k)"
proof (induction k)
  case 0
  show ?case by (simp add: chunkOffset_def chunkRequests_def)
next
  case (Suc k)
  from Suc.prems have acc: "accepted fetchFn log uploadUrl buffer k"
    and ans: "isAccepted (answerTo fetchFn log uploadUrl buffer k)"
    and lt: "k < chunkCount (length buffer)"
    by (simp_all add: accepted_Suc)
  from lt have below: "chunkOffset k < length buffer"
    by (simp add: chunkCount_less_iff)
  from ans obtain res where
    res: "fetchFn ((log @ chunkRequests uploadUrl buffer k) @ [chunkRequest uploadUrl buffer (chunkOffset k)]) = Inr res"
    and st: "status res = 202"
    by (cases "answerTo fetchFn log uploadUrl buffer k") (auto simp: answerTo_def chunkRequests_Suc)
  have "resumableLoop fetchFn uploadUrl buffer 0 log =
        resumableLoop fetchFn uploadUrl buffer (chunkOffset k) (log @ chunkRequests uploadUrl buffer k)"
    using Suc.IH [OF acc] lt below by (simp add: min_def)
  also have "\<dots> = resumableLoop fetchFn uploadUrl buffer (chunkEnd (chunkOffset k) (length buffer))
        ((log @ chunkRequests uploadUrl buffer k) @ [chunkRequest uploadUrl buffer (chunkOffset k)])"
    using below res st by (rule loop_continued)
  finally show ?case
    by (simp add: chunkEnd_next chunkRequests_Suc)
qed


lemma loop_issues_prefix:
  "j \<le> chunkCount (length buffer) \<Longrightarrow>
   \<exists>k. j \<le> k \<and> k \<le> chunkCount (length buffer) \<and> (j < chunkCount (length buffer) \<longrightarrow> j < k) \<and>
       snd (resumableLoop fetchFn uploadUrl buffer (min (chunkOffset j) (length buffer))
              (log @ chunkRequests uploadUrl buffer j)) =
       log @ chunkRequests uploadUrl buffer k"
proof (induction "chunkCount (length buffer) - j" arbitrary: j)
  case 0
  then have eq: "j = chunkCount (length buffer)" by simp
  have "min (chunkOffset j) (length buffer) = length buffer"
    using chunkCount_covers [of "length buffer"] eq by simp
  then show ?case
    using eq by (intro exI [of _ j]) (simp add: loop_exhausted)
next
  case (Suc d)
  then have lt: "j < chunkCount (length buffer)" by simp
  then have below: "chunkOffset j < length buffer"
    by (simp add: chunkCount_less_iff)
  then have off: "min (chunkOffset j) (length buffer) = chunkOffset j" by simp
  let ?log = "log @ chunkRequests uploadUrl buffer j"
  let ?req = "chunkRequest uploadUrl buffer (chunkOffset j)"
  have next_log: "?log @ [?req] = log @ chunkRequests uploadUrl buffer (Suc j)"
    by (simp add: chunkRequests_Suc)
  show ?case
  proof (cases "fetchFn (?log @ [?req])")
    case (Inl e)
    with below lt show ?thesis
      unfolding off by (intro exI [of _ "Suc j"]) (simp add: loop_rejected chunkRequests_Suc)
  next
    case (Inr res)
    consider "status res = 200 \<or> status res = 201" | "status res = 202"
      | "status res \<noteq> 200" "status res \<noteq> 201" "status res \<noteq> 202"
      by blast
    then show ?thesis
    proof cases
      case 1
      with Inr below lt show ?thesis
        unfolding off by (intro exI [of _ "Suc j"]) (simp add: loop_completed chunkRequests_Suc)
    next
      case 3
      with Inr below lt show ?thesis
        unfolding off by (intro exI [of _ "Suc j"]) (simp add: loop_failed chunkRequests_Suc)
    next
      case 2
      have d: "d = chunkCount (length buffer) - Suc j" using Suc.hyps(2) by simp
      from lt have le: "Suc j \<le> chunkCount (length buffer)" by simp
      from Suc.hyps(1) [OF d le] obtain k where
        k: "Suc j \<le> k" "k \<le> chunkCount (length buffer)"
        and run: "snd (resumableLoop fetchFn uploadUrl buffer (min (chunkOffset (Suc j)) (length buffer))
              (log @ chunkRequests uploadUrl buffer (Suc j))) = log @ chunkRequests uploadUrl buffer k"
        by blast
      have "resumableLoop fetchFn uploadUrl buffer (chunkOffset j) ?log =
            resumableLoop fetchFn uploadUrl buffer (chunkEnd (chunkOffset j) (length buffer)) (?log @ [?req])"
        using below Inr 2 by (rule loop_continued)
      then have "snd (resumableLoop fetchFn uploadUrl buffer (chunkOffset j) ?log) =
            log @ chunkRequests uploadUrl buffer k"
        using run by (simp only: chunkEnd_next next_log)
      with k lt show ?thesis
        unfolding off by (intro exI [of _ k]) simp
    qed
  qed
qed

lemma resumable_issues_prefix:
  "\<exists>k. k \<le> chunkCount (length buffer) \<and> (0 < length buffer \<longrightarrow> 0 < k) \<and>
       snd (uploadViaResumableSession fetchFn uploadUrl buffer log) =
       log @ chunkRequests uploadUrl buffer k"
proof -
  have pos: "0 < length buffer \<Longrightarrow> 0 < chunkCount (length buffer)"
    by (simp add: chunkCount_less_iff chunkOffset_def)
  from loop_issues_prefix [of 0 buffer fetchFn uploadUrl log] pos show ?thesis
    by (auto simp: uploadViaResumableSession_def chunkOffset_def chunkRequests_def)
qed

lemma resumable_full_plan:
  assumes "accepted fetchFn log uploadUrl buffer (chunkCount (length buffer) - 1)"
  shows "snd (uploadViaResumableSession fetchFn uploadUrl buffer log) =
         log @ chunkRequests uploadUrl buffer (chunkCount (length buffer))"
proof (cases "chunkCount (length buffer)")
  case 0
  then have "\<not> 0 < length buffer"
    using chunkCount_less_iff [of 0 "length buffer"] by (simp add: chunkOffset_def)
  with 0 show ?thesis
    by (simp add: uploadViaResumableSession_def loop_exhausted chunkRequests_def)
next
  case (Suc m)
  with assms have acc: "accepted fetchFn log uploadUrl buffer m" by simp
  have m: "m \<le> chunkCount (length buffer)" "m < chunkCount (length buffer)" using Suc by simp_all
  from loop_issues_prefix [OF m(1), of fetchFn uploadUrl log] m(2) Suc obtain k where
    "m < k" "k \<le> Suc m"
    "snd (resumableLoop fetchFn uploadUrl buffer (min (chunkOffset m) (length buffer))
            (log @ chunkRequests uploadUrl buffer m)) = log @ chunkRequests uploadUrl buffer k"
    by auto
  moreover then have "k = Suc m" by simp
  ultimately show ?thesis
    using loop_after_accepted [OF acc m(1)] Suc
    by (simp add: uploadViaResumableSession_def)
qed

lemma completion_after_accepted:
  assumes "accepted fetchFn log uploadUrl buffer k" "chunkOffset k < length buffer"
    and "answerTo fetchFn log uploadUrl buffer k = Inr res"
  shows "status res = 200 \<or> status res = 201 \<Longrightarrow>
         uploadViaResumableSession fetchFn uploadUrl buffer log =
           (completionResult res, log @ chunkRequests uploadUrl buffer (Suc k))"
    and "status res \<noteq> 200 \<Longrightarrow> status res \<noteq> 201 \<Longrightarrow> status res \<noteq> 202 \<Longrightarrow>
         uploadViaResumableSession fetchFn uploadUrl buffer log =
           (Inl (chunkFailure (chunkOffset k) res), log @ chunkRequests uploadUrl buffer (Suc k))"
proof -
  from assms(2) have k: "k \<le> chunkCount (length buffer)"
    using chunkCount_less_iff [of k "length buffer"] by simp
  have start: "uploadViaResumableSession fetchFn uploadUrl buffer log =
      resumableLoop fetchFn uploadUrl buffer (chunkOffset k) (log @ chunkRequests uploadUrl buffer k)"
    using loop_after_accepted [OF assms(1) k] assms(2)
    by (simp add: uploadViaResumableSession_def min_def)
  have ans: "fetchFn ((log @ chunkRequests uploadUrl buffer k) @
               [chunkRequest uploadUrl buffer (chunkOffset k)]) = Inr res"
    using assms(3) by (simp add: answerTo_def chunkRequests_Suc)
  show "status res = 200 \<or> status res = 201 \<Longrightarrow>
         uploadViaResumableSession fetchFn uploadUrl buffer log =
           (completionResult res, log @ chunkRequests uploadUrl buffer (Suc k))"
    using loop_completed [of "chunkOffset k" buffer fetchFn "log @ chunkRequests uploadUrl buffer k"
        uploadUrl res] assms(2) ans start
    by (simp add: chunkRequests_Suc)
  show "status res \<noteq> 200 \<Longrightarrow> status res \<noteq> 201 \<Longrightarrow> status res \<noteq> 202 \<Longrightarrow>
         uploadViaResumableSession fetchFn uploadUrl buffer log =
           (Inl (chunkFailure (chunkOffset k) res), log @ chunkRequests uploadUrl buffer (Suc k))"
    using loop_failed [of "chunkOffset k" buffer fetchFn "log @ chunkRequests uploadUrl buffer k"
        uploadUrl res] assms(2) ans start
    by (simp add: chunkRequests_Suc)
qed

lemma length_chunkRequests [simp]: "length (chunkRequests uploadUrl buffer k) = k"
  by (simp add: chunkRequests_def)

lemma accepted_0: "accepted fetchFn log uploadUrl buffer 0"
  by (simp add: accepted_def)

lemmas accepted_eval = accepted_0 accepted_Suc answerTo_def scripted_def plainAnswer_def

subsection \<open>The resumable transfer\<close>

text \<open>
  C2. In a resumable transfer, let the chunk submission number \<open>k\<close> (the earlier ones
  were answered 202) be answered with status 200 or 201. Then the transfer issues no
  further request, whatever part of the payload remains: its requests are exactly the
  chunk submissions \<open>0..k\<close>. The result is the upload result built from \<open>id\<close>,
  \<open>webUrl\<close> and \<open>name\<close> of the response body when all three are there (and not
  empty); when one of them is absent, the transfer fails with the error
  "Resumable upload final response missing required fields". (A body that is not JSON
  makes \<open>res.json()\<close> reject, and the transfer fails with that rejection.)
\<close>

theorem completion_response_ends_transfer:
  assumes "accepted fetchFn log uploadUrl buffer k"
    and "chunkOffset k < length buffer"
    and "answerTo fetchFn log uploadUrl buffer k = Inr res"
    and "status res = 200 \<or> status res = 201"
  shows "snd (uploadViaResumableSession fetchFn uploadUrl buffer log) =
           log @ chunkRequests uploadUrl buffer (Suc k) \<and>
         fst (uploadViaResumableSession fetchFn uploadUrl buffer log) =
           (case bodyJson res of
              Inl e \<Rightarrow> Inl e
            | Inr data \<Rightarrow>
                if truthy (j_id data) \<and> truthy (j_webUrl data) \<and> truthy (j_name data)
                then Inr \<lparr>item_id = the (j_id data), item_webUrl = the (j_webUrl data),
                          item_name = the (j_name data)\<rparr>
                else Inl (Error ''Resumable upload final response missing required fields''))"
  using completion_after_accepted(1) [OF assms]
  by (simp add: completionResult_def split: sum.split)

theorem completion_response_ends_transfer_witness:
  "accepted scenario1 [] ''https://up'' tenMiB 2 \<and>
   chunkOffset 2 < length tenMiB \<and>
   answerTo scenario1 [] ''https://up'' tenMiB 2 = jsonAnswer 201 uploadedItem \<and>
   uploadViaResumableSession scenario1 ''https://up'' tenMiB [] =
     (Inr \<lparr>item_id = ''x'', item_webUrl = ''u'', item_name = ''f''\<rparr>,
      chunkRequests ''https://up'' tenMiB 3) \<and>
   answerTo earlyCompletion [] ''https://up'' tenMiB 0 = jsonAnswer 201 uploadedItem \<and>
   chunkEnd (chunkOffset 0) (length tenMiB) < length tenMiB \<and>
   uploadViaResumableSession earlyCompletion ''https://up'' tenMiB [] =
     (Inr \<lparr>item_id = ''x'', item_webUrl = ''u'', item_name = ''f''\<rparr>,
      chunkRequests ''https://up'' tenMiB 1) \<and>
   answerTo namelessCompletion [] ''https://up'' tenMiB 0 = jsonAnswer 200 itemWithoutName \<and>
   uploadViaResumableSession namelessCompletion ''https://up'' tenMiB [] =
     (Inl (Error ''Resumable upload final response missing required fields''),
      chunkRequests ''https://up'' tenMiB 1)"
proof -
  have acc: "accepted scenario1 [] ''https://up'' tenMiB 2"
    by (simp add: numeral_2_eq_2 accepted_eval scenario1_def)
  have below: "chunkOffset 2 < length tenMiB" "chunkOffset 0 < length tenMiB"
    by (simp_all add: chunkOffset_def RESUMABLE_CHUNK_SIZE_def tenMiB_def)
  have rest: "chunkEnd (chunkOffset 0) (length tenMiB) < length tenMiB"
    by (simp add: chunkEnd_def chunkOffset_def RESUMABLE_CHUNK_SIZE_def tenMiB_def)
  have ans: "answerTo scenario1 [] ''https://up'' tenMiB 2 =
      Inr \<lparr>status = 201, statusText = ''OK'', bodyText = Inr [], bodyJson = Inr uploadedItem\<rparr>"
    by (simp add: answerTo_def scenario1_def scripted_def jsonAnswer_def)
  have early: "answerTo earlyCompletion [] ''https://up'' tenMiB 0 =
      Inr \<lparr>status = 201, statusText = ''OK'', bodyText = Inr [], bodyJson = Inr uploadedItem\<rparr>"
    by (simp add: answerTo_def earlyCompletion_def scripted_def jsonAnswer_def)
  have nameless: "answerTo namelessCompletion [] ''https://up'' tenMiB 0 =
      Inr \<lparr>status = 200, statusText = ''OK'', bodyText = Inr [], bodyJson = Inr itemWithoutName\<rparr>"
    by (simp add: answerTo_def namelessCompletion_def scripted_def jsonAnswer_def)
  have r1: "uploadViaResumableSession scenario1 ''https://up'' tenMiB [] =
     (Inr \<lparr>item_id = ''x'', item_webUrl = ''u'', item_name = ''f''\<rparr>,
      chunkRequests ''https://up'' tenMiB 3)"
    using completion_response_ends_transfer [OF acc below(1) ans]
    by (simp add: prod_eq_iff uploadedItem_def noFields_def numeral_3_eq_3)
  have r2: "uploadViaResumableSession earlyCompletion ''https://up'' tenMiB [] =
     (Inr \<lparr>item_id = ''x'', item_webUrl = ''u'', item_name = ''f''\<rparr>,
      chunkRequests ''https://up'' tenMiB 1)"
    using completion_response_ends_transfer [OF accepted_0 below(2) early]
    by (simp add: prod_eq_iff uploadedItem_def noFields_def)
  have r3: "uploadViaResumableSession namelessCompletion ''https://up'' tenMiB [] =
     (Inl (Error ''Resumable upload final response missing required fields''),
      chunkRequests ''https://up'' tenMiB 1)"
    using completion_response_ends_transfer [OF accepted_0 below(2) nameless]
    by (simp add: prod_eq_iff itemWithoutName_def noFields_def)
  show ?thesis
    using acc below(1) ans early rest nameless r1 r2 r3
    by (simp only: jsonAnswer_def simp_thms)
qed

text \<open>
  C3. In a resumable transfer, let the chunk submission number \<open>k\<close> be answered with a
  status other than 200, 201 and 202. Then the transfer fails at once with an error whose
  message holds the offset of that chunk, the status (with its text) and the body of the
  response, and no further chunk is submitted.
\<close>

theorem unexpected_status_aborts_transfer:
  assumes "accepted fetchFn log uploadUrl buffer k"
    and "chunkOffset k < length buffer"
    and "answerTo fetchFn log uploadUrl buffer k = Inr res"
    and "status res \<noteq> 200" and "status res \<noteq> 201" and "status res \<noteq> 202"
  shows "uploadViaResumableSession fetchFn uploadUrl buffer log =
           (Inl (Error (''Resumable upload failed at byte '' @ String_of (chunkOffset k) @ '': '' @
                        String_of (status res) @ '' '' @ statusText res @ '' - '' @
                        (case bodyText res of Inl e \<Rightarrow> [] | Inr t \<Rightarrow> t))),
            log @ chunkRequests uploadUrl buffer (Suc k))"
  using completion_after_accepted(2) [OF assms]
  by (simp add: chunkFailure_def textOrEmpty_def)

theorem unexpected_status_aborts_transfer_witness:
  "accepted scenario5 [] ''https://up'' tenMiB 1 \<and>
   chunkOffset 1 < length tenMiB \<and>
   answerTo scenario5 [] ''https://up'' tenMiB 1 =
     plainAnswer 500 ''Internal Server Error'' ''boom'' \<and>
   uploadViaResumableSession scenario5 ''https://up'' tenMiB [] =
     (Inl (Error ''Resumable upload failed at byte 3932160: 500 Internal Server Error - boom''),
      chunkRequests ''https://up'' tenMiB 2)"
proof -
  have acc: "accepted scenario5 [] ''https://up'' tenMiB 1"
    by (simp add: accepted_eval scenario5_def)
  have below: "chunkOffset 1 < length tenMiB"
    by (simp add: chunkOffset_def RESUMABLE_CHUNK_SIZE_def tenMiB_def)
  have ans: "answerTo scenario5 [] ''https://up'' tenMiB 1 =
      Inr \<lparr>status = 500, statusText = ''Internal Server Error'', bodyText = Inr ''boom'',
           bodyJson = Inl (Rejected ''SyntaxError'')\<rparr>"
    by (simp add: answerTo_def scenario5_def scripted_def plainAnswer_def)
  have off: "String_of (chunkOffset 1) = ''3932160''"
    by (simp add: chunkOffset_def RESUMABLE_CHUNK_SIZE_def String_of.simps digitChar_def)
  have st: "String_of 500 = ''500''"
    by (simp add: String_of.simps digitChar_def)
  show ?thesis
    using unexpected_status_aborts_transfer [OF acc below ans] acc below ans off st
    by (simp add: plainAnswer_def numeral_2_eq_2)
qed

text \<open>
  C4. A resumable transfer in which every chunk submission is answered 202, so that the
  offset reaches the length of the payload without a 200 or 201, fails with the error
  "Resumable upload finished without a completion response"; it does not return a result.
\<close>

theorem exhausted_without_completion:
  assumes "accepted fetchFn log uploadUrl buffer (chunkCount (length buffer))"
  shows "uploadViaResumableSession fetchFn uploadUrl buffer log =
           (Inl (Error ''Resumable upload finished without a completion response''),
            log @ chunkRequests uploadUrl buffer (chunkCount (length buffer)))"
proof -
  have "min (chunkOffset (chunkCount (length buffer))) (length buffer) = length buffer"
    using chunkCount_covers [of "length buffer"] by simp
  with loop_after_accepted [OF assms] show ?thesis
    by (simp add: uploadViaResumableSession_def loop_exhausted)
qed

lemma chunkCount_tenMiB: "chunkCount (length tenMiB) = 3"
  by (simp add: chunkCount_def RESUMABLE_CHUNK_SIZE_def tenMiB_def)

theorem exhausted_without_completion_witness:
  "accepted scenario6 [] ''https://up'' tenMiB (chunkCount (length tenMiB)) \<and>
   uploadViaResumableSession scenario6 ''https://up'' tenMiB [] =
     (Inl (Error ''Resumable upload finished without a completion response''),
      chunkRequests ''https://up'' tenMiB 3)"
proof -
  have acc: "accepted scenario6 [] ''https://up'' tenMiB (chunkCount (length tenMiB))"
    by (simp add: chunkCount_tenMiB numeral_3_eq_3 accepted_eval scenario6_def)
  show ?thesis
    using exhausted_without_completion [OF acc] acc
    by (simp add: chunkCount_tenMiB)
qed

subsection \<open>The chunk sequence of a large payload\<close>

lemma chunkOffset_Suc: "chunkOffset (Suc j) = chunkOffset j + RESUMABLE_CHUNK_SIZE"
  by (simp add: chunkOffset_def)

lemma chunkEnd_inner:
  "Suc j < chunkCount totalSize \<Longrightarrow> chunkEnd (chunkOffset j) totalSize = chunkOffset (Suc j)"
  by (simp add: chunkEnd_next chunkCount_less_iff)

lemma chunkEnd_final:
  "Suc j = chunkCount totalSize \<Longrightarrow> chunkEnd (chunkOffset j) totalSize = totalSize"
  using chunkCount_covers [of totalSize] by (simp add: chunkEnd_next)

lemma final_length:
  assumes "Suc j = chunkCount totalSize"
  shows "totalSize - chunkOffset j =
         (if totalSize mod RESUMABLE_CHUNK_SIZE = 0 then RESUMABLE_CHUNK_SIZE
          else totalSize mod RESUMABLE_CHUNK_SIZE)"
proof -
  let ?C = RESUMABLE_CHUNK_SIZE
  let ?q = "totalSize div ?C" and ?r = "totalSize mod ?C"
  have split: "totalSize = ?q * ?C + ?r" by simp
  have r: "?r < ?C" using chunk_size_pos by simp
  have lo: "j * ?C < totalSize"
    using assms chunkCount_less_iff [of j totalSize] by (simp add: chunkOffset_def)
  have hi: "totalSize \<le> Suc j * ?C"
    using assms chunkCount_covers [of totalSize] by (simp add: chunkOffset_def)
  show ?thesis
  proof (cases "?r = 0")
    case True
    then have t: "totalSize = ?q * ?C" using split by simp
    from lo t have "j * ?C < ?q * ?C" by simp
    then have "j < ?q" by simp
    moreover from hi t have "?q * ?C \<le> Suc j * ?C" by simp
    then have "?q \<le> Suc j" by (metis chunk_size_pos mult_le_cancel2)
    ultimately have "?q = Suc j" by simp
    with t True show ?thesis by (simp add: chunkOffset_def)
  next
    case False
    from lo split r have "j * ?C < ?q * ?C + ?C" by linarith
    then have "j * ?C < Suc ?q * ?C" by simp
    then have "j < Suc ?q" by (simp only: mult_less_cancel2)
    moreover from hi split False have "?q * ?C < Suc j * ?C" by linarith
    then have "?q < Suc j" by (simp only: mult_less_cancel2)
    ultimately have "?q = j" by simp
    with split False show ?thesis by (simp add: chunkOffset_def)
  qed
qed

lemma planned_chunk:
  assumes "j < chunkCount (length buffer)"
  shows "chunkEnd (chunkOffset j) (length buffer) = chunkOffset j + plannedLength (length buffer) j"
    and "chunkOffset j + plannedLength (length buffer) j \<le> length buffer"
    and "0 < plannedLength (length buffer) j"
proof -
  have pos: "0 < plannedLength (length buffer) j"
    using chunk_size_pos by (simp add: plannedLength_def)
  have below: "chunkOffset j < length buffer"
    using assms by (simp add: chunkCount_less_iff)
  have e: "chunkEnd (chunkOffset j) (length buffer) = chunkOffset j + plannedLength (length buffer) j"
  proof (cases "Suc j < chunkCount (length buffer)")
    case True
    then show ?thesis
      by (simp add: chunkEnd_inner plannedLength_def chunkOffset_Suc)
  next
    case False
    with assms have last: "Suc j = chunkCount (length buffer)" by simp
    then have "plannedLength (length buffer) j = length buffer - chunkOffset j"
      using final_length [OF last] by (simp add: plannedLength_def)
    with below last show ?thesis
      by (simp add: chunkEnd_final)
  qed
  show "chunkEnd (chunkOffset j) (length buffer) = chunkOffset j + plannedLength (length buffer) j"
    by (rule e)
  show "chunkOffset j + plannedLength (length buffer) j \<le> length buffer"
    using e by (metis chunkEnd_def min.cobounded2)
  show "0 < plannedLength (length buffer) j" by (rule pos)
qed

lemma planned_request:
  assumes "j < chunkCount (length buffer)"
  shows "chunkRequest uploadUrl buffer (chunkOffset j) =
     \<lparr>url = uploadUrl, http_method = Some ''PUT'',
      headers =
        [(''Content-Length'', String_of (plannedLength (length buffer) j)),
         (''Content-Range'',
            ''bytes '' @ String_of (chunkOffset j) @ ''-'' @
            String_of (chunkOffset j + plannedLength (length buffer) j - 1) @ ''/'' @
            String_of (length buffer))],
      body = Some (Bytes (take (plannedLength (length buffer) j) (drop (chunkOffset j) buffer)))\<rparr>"
proof -
  let ?off = "chunkOffset j" and ?len = "plannedLength (length buffer) j"
  note pc = planned_chunk [OF assms]
  have e: "chunkEnd ?off (length buffer) = ?off + ?len"
    by (rule pc(1))
  have "length (take ?len (drop ?off buffer)) = ?len"
    using pc(2) by simp
  then show ?thesis
    by (simp add: chunkRequest_def Let_def subarray_def e del: length_take)
qed

lemma large_has_two_chunks:
  assumes "SIMPLE_UPLOAD_LIMIT < totalSize"
  shows "2 \<le> chunkCount totalSize"
proof -
  have "chunkOffset 1 < totalSize"
    using assms by (simp add: chunkOffset_def SIMPLE_UPLOAD_LIMIT_def RESUMABLE_CHUNK_SIZE_def)
  then have "1 < chunkCount totalSize"
    by (simp only: chunkCount_less_iff)
  then show ?thesis by simp
qed

lemma rejection_after_accepted:
  assumes "accepted fetchFn log uploadUrl buffer k" "chunkOffset k < length buffer"
    and "answerTo fetchFn log uploadUrl buffer k = Inl e"
  shows "uploadViaResumableSession fetchFn uploadUrl buffer log =
           (Inl e, log @ chunkRequests uploadUrl buffer (Suc k))"
proof -
  from assms(2) have k: "k \<le> chunkCount (length buffer)"
    using chunkCount_less_iff [of k "length buffer"] by simp
  have start: "uploadViaResumableSession fetchFn uploadUrl buffer log =
      resumableLoop fetchFn uploadUrl buffer (chunkOffset k) (log @ chunkRequests uploadUrl buffer k)"
    using loop_after_accepted [OF assms(1) k] assms(2)
    by (simp add: uploadViaResumableSession_def min_def)
  have ans: "fetchFn ((log @ chunkRequests uploadUrl buffer k) @
               [chunkRequest uploadUrl buffer (chunkOffset k)]) = Inl e"
    using assms(3) by (simp add: answerTo_def chunkRequests_Suc)
  show ?thesis
    using loop_rejected [of "chunkOffset k" buffer fetchFn "log @ chunkRequests uploadUrl buffer k"
        uploadUrl e] assms(2) ans start
    by (simp add: chunkRequests_Suc)
qed

lemma first_unaccepted_ends:
  assumes "accepted fetchFn log uploadUrl buffer k" "chunkOffset k < length buffer"
    and "\<not> isAccepted (answerTo fetchFn log uploadUrl buffer k)"
  shows "snd (uploadViaResumableSession fetchFn uploadUrl buffer log) =
           log @ chunkRequests uploadUrl buffer (Suc k)"
proof (cases "answerTo fetchFn log uploadUrl buffer k")
  case (Inl e)
  then show ?thesis
    using rejection_after_accepted [OF assms(1,2)] by simp
next
  case (Inr res)
  with assms(3) have not202: "status res \<noteq> 202" by simp
  show ?thesis
  proof (cases "status res = 200 \<or> status res = 201")
    case True
    then show ?thesis
      using completion_after_accepted(1) [OF assms(1,2) Inr] by simp
  next
    case False
    then show ?thesis
      using completion_after_accepted(2) [OF assms(1,2) Inr] not202 by simp
  qed
qed

text \<open>
  C1 (amended). For a payload of more than 4 MiB, the resumable executor cuts the payload
  by the plan: chunk \<open>j\<close> starts at \<open>j * RESUMABLE_CHUNK_SIZE\<close>, the offsets start
  at 0 and each next offset is the end of the chunk before, every chunk but the last has
  length \<open>RESUMABLE_CHUNK_SIZE\<close> (3,932,160, a multiple of 320 KiB), the last one has
  length \<open>total mod RESUMABLE_CHUNK_SIZE\<close> (or the full constant when that is 0) and ends
  at the total length, and each chunk is submitted with
  \<open>Content-Range: bytes start-(end-1)/total\<close>. The requests the executor issues are
  always the first \<open>k\<close> chunks of that plan, for some \<open>k\<close> of at least 1. The
  sequence stops with the first submission that is not answered 202, be it answered 200
  or 201, with another status, or by a rejected fetch (which the executor lets
  propagate): when submission \<open>k\<close> is that one, the requests are exactly the chunks
  \<open>0..k\<close>. They are the whole plan, ending at the total length, when every submission
  before the last was answered 202.
\<close>

theorem resumable_chunk_sequence:
  assumes "4 * 1024 * 1024 < length buffer"
  shows "RESUMABLE_CHUNK_SIZE = 3932160 \<and> RESUMABLE_CHUNK_SIZE mod (320 * 1024) = 0 \<and>
    2 \<le> chunkCount (length buffer) \<and>
    (\<exists>k. 0 < k \<and> k \<le> chunkCount (length buffer) \<and>
         snd (uploadViaResumableSession fetchFn uploadUrl buffer log) =
         log @ chunkRequests uploadUrl buffer k) \<and>
    (\<forall>k. accepted fetchFn log uploadUrl buffer k \<and> chunkOffset k < length buffer \<and>
         \<not> isAccepted (answerTo fetchFn log uploadUrl buffer k) \<longrightarrow>
         snd (uploadViaResumableSession fetchFn uploadUrl buffer log) =
         log @ chunkRequests uploadUrl buffer (Suc k)) \<and>
    (\<forall>k e. accepted fetchFn log uploadUrl buffer k \<and> chunkOffset k < length buffer \<and>
         answerTo fetchFn log uploadUrl buffer k = Inl e \<longrightarrow>
         fst (uploadViaResumableSession fetchFn uploadUrl buffer log) = Inl e) \<and>
    (accepted fetchFn log uploadUrl buffer (chunkCount (length buffer) - 1) \<longrightarrow>
       snd (uploadViaResumableSession fetchFn uploadUrl buffer log) =
       log @ chunkRequests uploadUrl buffer (chunkCount (length buffer))) \<and>
    (\<forall>j < chunkCount (length buffer).
       chunkRequest uploadUrl buffer (chunkOffset j) =
         \<lparr>url = uploadUrl, http_method = Some ''PUT'',
          headers =
            [(''Content-Length'', String_of (plannedLength (length buffer) j)),
             (''Content-Range'',
                ''bytes '' @ String_of (chunkOffset j) @ ''-'' @
                String_of (chunkOffset j + plannedLength (length buffer) j - 1) @ ''/'' @
                String_of (length buffer))],
          body = Some (Bytes (take (plannedLength (length buffer) j)
                                (drop (chunkOffset j) buffer)))\<rparr>) \<and>
    chunkOffset 0 = 0 \<and>
    (\<forall>j. Suc j < chunkCount (length buffer) \<longrightarrow>
       plannedLength (length buffer) j = RESUMABLE_CHUNK_SIZE \<and>
       chunkOffset (Suc j) = chunkOffset j + plannedLength (length buffer) j) \<and>
    plannedLength (length buffer) (chunkCount (length buffer) - 1) =
      (if length buffer mod RESUMABLE_CHUNK_SIZE = 0 then RESUMABLE_CHUNK_SIZE
       else length buffer mod RESUMABLE_CHUNK_SIZE) \<and>
    chunkOffset (chunkCount (length buffer) - 1) +
      plannedLength (length buffer) (chunkCount (length buffer) - 1) = length buffer"
proof -
  let ?n = "chunkCount (length buffer)"
  have large: "SIMPLE_UPLOAD_LIMIT < length buffer"
    using assms by (simp add: SIMPLE_UPLOAD_LIMIT_def)
  have two: "2 \<le> ?n" using large by (rule large_has_two_chunks)
  have nonempty: "0 < length buffer" using assms by (cases buffer) simp_all
  have stops: "\<forall>k. accepted fetchFn log uploadUrl buffer k \<and> chunkOffset k < length buffer \<and>
         \<not> isAccepted (answerTo fetchFn log uploadUrl buffer k) \<longrightarrow>
         snd (uploadViaResumableSession fetchFn uploadUrl buffer log) =
         log @ chunkRequests uploadUrl buffer (Suc k)"
    by (simp add: first_unaccepted_ends)
  have rejects: "\<forall>k e. accepted fetchFn log uploadUrl buffer k \<and> chunkOffset k < length buffer \<and>
         answerTo fetchFn log uploadUrl buffer k = Inl e \<longrightarrow>
         fst (uploadViaResumableSession fetchFn uploadUrl buffer log) = Inl e"
    by (auto dest: rejection_after_accepted)
  have size: "RESUMABLE_CHUNK_SIZE = 3932160 \<and> RESUMABLE_CHUNK_SIZE mod (320 * 1024) = 0"
    by (simp add: RESUMABLE_CHUNK_SIZE_def)
  have prefix: "\<exists>k. 0 < k \<and> k \<le> ?n \<and>
         snd (uploadViaResumableSession fetchFn uploadUrl buffer log) =
         log @ chunkRequests uploadUrl buffer k"
    using resumable_issues_prefix [of buffer fetchFn uploadUrl log] nonempty by blast
  have full: "accepted fetchFn log uploadUrl buffer (?n - 1) \<longrightarrow>
       snd (uploadViaResumableSession fetchFn uploadUrl buffer log) =
       log @ chunkRequests uploadUrl buffer ?n"
    by (simp add: resumable_full_plan)
  have reqs: "\<forall>j < ?n.
       chunkRequest uploadUrl buffer (chunkOffset j) =
         \<lparr>url = uploadUrl, http_method = Some ''PUT'',
          headers =
            [(''Content-Length'', String_of (plannedLength (length buffer) j)),
             (''Content-Range'',
                ''bytes '' @ String_of (chunkOffset j) @ ''-'' @
                String_of (chunkOffset j + plannedLength (length buffer) j - 1) @ ''/'' @
                String_of (length buffer))],
          body = Some (Bytes (take (plannedLength (length buffer) j)
                                (drop (chunkOffset j) buffer)))\<rparr>"
    by (simp add: planned_request)
  have inner: "\<forall>j. Suc j < ?n \<longrightarrow>
       plannedLength (length buffer) j = RESUMABLE_CHUNK_SIZE \<and>
       chunkOffset (Suc j) = chunkOffset j + plannedLength (length buffer) j"
    by (simp add: plannedLength_def chunkOffset_Suc)
  have lastj: "?n - 1 < ?n" "Suc (?n - 1) = ?n" using two by simp_all
  have final_len: "plannedLength (length buffer) (?n - 1) =
      (if length buffer mod RESUMABLE_CHUNK_SIZE = 0 then RESUMABLE_CHUNK_SIZE
       else length buffer mod RESUMABLE_CHUNK_SIZE)"
    using lastj(2) by (simp add: plannedLength_def)
  have final_end: "chunkOffset (?n - 1) + plannedLength (length buffer) (?n - 1) = length buffer"
    using planned_chunk(1) [OF lastj(1)] chunkEnd_final [OF lastj(2)] by simp
  have zero: "chunkOffset 0 = 0" by (simp add: chunkOffset_def)
  from size two prefix stops rejects full reqs zero inner final_len final_end show ?thesis
    by (intro conjI) (simp_all only:)
qed

lemma large_tenMiB: "SIMPLE_UPLOAD_LIMIT < length tenMiB"
  by (simp add: SIMPLE_UPLOAD_LIMIT_def tenMiB_def)

lemma four_MiB_tenMiB: "4 * 1024 * 1024 < length tenMiB"
  by (simp add: tenMiB_def)

lemmas eval_decimal = String_of.simps digitChar_def

theorem resumable_chunk_sequence_witness:
  "4 * 1024 * 1024 < length tenMiB \<and>
   accepted scenario1 [] ''https://up'' tenMiB (chunkCount (length tenMiB) - 1) \<and>
   snd (uploadViaResumableSession scenario1 ''https://up'' tenMiB []) =
     chunkRequests ''https://up'' tenMiB 3 \<and>
   chunkRequests ''https://up'' tenMiB 3 =
    [\<lparr>url = ''https://up'', http_method = Some ''PUT'',
      headers = [(''Content-Length'', ''3932160''),
                 (''Content-Range'', ''bytes 0-3932159/10485760'')],
      body = Some (Bytes (replicate 3932160 0))\<rparr>,
     \<lparr>url = ''https://up'', http_method = Some ''PUT'',
      headers = [(''Content-Length'', ''3932160''),
                 (''Content-Range'', ''bytes 3932160-7864319/10485760'')],
      body = Some (Bytes (replicate 3932160 0))\<rparr>,
     \<lparr>url = ''https://up'', http_method = Some ''PUT'',
      headers = [(''Content-Length'', ''2621440''),
                 (''Content-Range'', ''bytes 7864320-10485759/10485760'')],
      body = Some (Bytes (replicate 2621440 0))\<rparr>] \<and>
   answerTo (scripted []) [] ''https://up'' tenMiB 0 = Inl (Rejected ''no answer'') \<and>
   uploadViaResumableSession (scripted []) ''https://up'' tenMiB [] =
     (Inl (Rejected ''no answer''), chunkRequests ''https://up'' tenMiB 1) \<and>
   accepted scenario5 [] ''https://up'' tenMiB 1 \<and>
   answerTo scenario5 [] ''https://up'' tenMiB 1 =
     plainAnswer 500 ''Internal Server Error'' ''boom'' \<and>
   snd (uploadViaResumableSession scenario5 ''https://up'' tenMiB []) =
     chunkRequests ''https://up'' tenMiB 2 \<and>
   answerTo earlyCompletion [] ''https://up'' tenMiB 0 = jsonAnswer 201 uploadedItem \<and>
   snd (uploadViaResumableSession earlyCompletion ''https://up'' tenMiB []) =
     chunkRequests ''https://up'' tenMiB 1"
proof -
  note plan = resumable_chunk_sequence [OF four_MiB_tenMiB, of _ "''https://up''" "[]"]
  have acc: "accepted scenario1 [] ''https://up'' tenMiB (chunkCount (length tenMiB) - 1)"
    by (simp add: chunkCount_tenMiB numeral_2_eq_2 accepted_eval scenario1_def)
  from plan [of scenario1] acc
  have full: "snd (uploadViaResumableSession scenario1 ''https://up'' tenMiB []) =
     chunkRequests ''https://up'' tenMiB 3"
    by (simp add: chunkCount_tenMiB)
  have len: "plannedLength (length tenMiB) 0 = 3932160" "plannedLength (length tenMiB) 1 = 3932160"
    "plannedLength (length tenMiB) 2 = 2621440"
    by (simp_all add: plannedLength_def chunkCount_tenMiB) (simp_all add: tenMiB_def RESUMABLE_CHUNK_SIZE_def)
  have off: "chunkOffset 0 = 0" "chunkOffset 1 = 3932160" "chunkOffset 2 = 7864320"
    by (simp_all add: chunkOffset_def RESUMABLE_CHUNK_SIZE_def)
  from plan [of scenario1]
  have reqs: "\<forall>j<3. chunkRequest ''https://up'' tenMiB (chunkOffset j) =
         \<lparr>url = ''https://up'', http_method = Some ''PUT'',
          headers =
            [(''Content-Length'', String_of (plannedLength (length tenMiB) j)),
             (''Content-Range'',
                ''bytes '' @ String_of (chunkOffset j) @ ''-'' @
                String_of (chunkOffset j + plannedLength (length tenMiB) j - 1) @ ''/'' @
                String_of (length tenMiB))],
          body = Some (Bytes (take (plannedLength (length tenMiB) j)
                                (drop (chunkOffset j) tenMiB)))\<rparr>"
    unfolding chunkCount_tenMiB by (elim conjE) assumption
  have r0: "chunkRequest ''https://up'' tenMiB (chunkOffset 0) =
     \<lparr>url = ''https://up'', http_method = Some ''PUT'',
      headers = [(''Content-Length'', ''3932160''),
                 (''Content-Range'', ''bytes 0-3932159/10485760'')],
      body = Some (Bytes (replicate 3932160 0))\<rparr>"
    using reqs [rule_format, of 0] unfolding len off by (simp add: tenMiB_def eval_decimal)
  have r1: "chunkRequest ''https://up'' tenMiB (chunkOffset 1) =
     \<lparr>url = ''https://up'', http_method = Some ''PUT'',
      headers = [(''Content-Length'', ''3932160''),
                 (''Content-Range'', ''bytes 3932160-7864319/10485760'')],
      body = Some (Bytes (replicate 3932160 0))\<rparr>"
    using reqs [rule_format, of 1] unfolding len off by (simp add: tenMiB_def eval_decimal)
  have r2: "chunkRequest ''https://up'' tenMiB (chunkOffset 2) =
     \<lparr>url = ''https://up'', http_method = Some ''PUT'',
      headers = [(''Content-Length'', ''2621440''),
                 (''Content-Range'', ''bytes 7864320-10485759/10485760'')],
      body = Some (Bytes (replicate 2621440 0))\<rparr>"
    using reqs [rule_format, of 2] unfolding len off by (simp add: tenMiB_def eval_decimal)
  have three: "[0..<3] = [0, 1, 2]"
    by (simp add: numeral_3_eq_3 upt_rec)
  have all: "chunkRequests ''https://up'' tenMiB 3 =
    [\<lparr>url = ''https://up'', http_method = Some ''PUT'',
      headers = [(''Content-Length'', ''3932160''),
                 (''Content-Range'', ''bytes 0-3932159/10485760'')],
      body = Some (Bytes (replicate 3932160 0))\<rparr>,
     \<lparr>url = ''https://up'', http_method = Some ''PUT'',
      headers = [(''Content-Length'', ''3932160''),
                 (''Content-Range'', ''bytes 3932160-7864319/10485760'')],
      body = Some (Bytes (replicate 3932160 0))\<rparr>,
     \<lparr>url = ''https://up'', http_method = Some ''PUT'',
      headers = [(''Content-Length'', ''2621440''),
                 (''Content-Range'', ''bytes 7864320-10485759/10485760'')],
      body = Some (Bytes (replicate 2621440 0))\<rparr>]"
    unfolding chunkRequests_def three by (simp only: list.map r0 r1 r2)
  have below: "chunkOffset 0 < length tenMiB" "chunkOffset 1 < length tenMiB"
    by (simp_all add: chunkOffset_def RESUMABLE_CHUNK_SIZE_def tenMiB_def)
  have rej: "answerTo (scripted []) [] ''https://up'' tenMiB 0 = Inl (Rejected ''no answer'')"
    by (simp add: answerTo_def scripted_def)
  from plan [of "scripted []"] rej below(1)
  have rej_fst: "fst (uploadViaResumableSession (scripted []) ''https://up'' tenMiB []) =
      Inl (Rejected ''no answer'')"
    using accepted_0 by blast
  from plan [of "scripted []"] below(1)
  have rej_snd: "snd (uploadViaResumableSession (scripted []) ''https://up'' tenMiB []) =
      [] @ chunkRequests ''https://up'' tenMiB (Suc 0)"
    using accepted_0 [of "scripted []" "[]" "''https://up''" tenMiB] rej
    by (metis isAccepted.simps(1))
  have rejected: "uploadViaResumableSession (scripted []) ''https://up'' tenMiB [] =
     (Inl (Rejected ''no answer''), chunkRequests ''https://up'' tenMiB 1)"
    using rej_fst rej_snd by (simp add: prod_eq_iff)
  have acc5: "accepted scenario5 [] ''https://up'' tenMiB 1"
    by (simp add: accepted_eval scenario5_def)
  have ans5: "answerTo scenario5 [] ''https://up'' tenMiB 1 =
     plainAnswer 500 ''Internal Server Error'' ''boom''"
    by (simp add: answerTo_def scenario5_def scripted_def)
  then have un5: "\<not> isAccepted (answerTo scenario5 [] ''https://up'' tenMiB 1)"
    by (simp add: plainAnswer_def)
  from plan [of scenario5] acc5 below(2) un5
  have failed: "snd (uploadViaResumableSession scenario5 ''https://up'' tenMiB []) =
     [] @ chunkRequests ''https://up'' tenMiB (Suc 1)"
    by blast
  have ansE: "answerTo earlyCompletion [] ''https://up'' tenMiB 0 = jsonAnswer 201 uploadedItem"
    by (simp add: answerTo_def earlyCompletion_def scripted_def)
  then have unE: "\<not> isAccepted (answerTo earlyCompletion [] ''https://up'' tenMiB 0)"
    by (simp add: jsonAnswer_def)
  from plan [of earlyCompletion] below(1) unE
  have early: "snd (uploadViaResumableSession earlyCompletion ''https://up'' tenMiB []) =
     [] @ chunkRequests ''https://up'' tenMiB (Suc 0)"
    using accepted_0 [of earlyCompletion "[]" "''https://up''" tenMiB] by blast
  have failed': "snd (uploadViaResumableSession scenario5 ''https://up'' tenMiB []) =
     chunkRequests ''https://up'' tenMiB 2"
    using failed by (simp add: numeral_2_eq_2)
  have early': "snd (uploadViaResumableSession earlyCompletion ''https://up'' tenMiB []) =
     chunkRequests ''https://up'' tenMiB 1"
    using early by simp
  show ?thesis
    by (intro conjI four_MiB_tenMiB acc full all rej rejected acc5 ans5 failed' ansE early')
qed

lemma fetch_scripted:
  "fetch (scripted answers) req log =
     ((if length log < length answers then answers ! length log else Inl (Rejected ''no answer'')),
      log @ [req])"
  by (simp add: fetch_def scripted_def)

text \<open>
  The claim as first stated has the sequence always end at the total length. A server that
  creates the session and answers the first chunk with 500 stops the transfer after the
  one chunk \<open>[0, 3932160)\<close> of a payload of 10,485,760 bytes.
\<close>

theorem resumable_chunk_sequence_counterexample:
  "SIMPLE_UPLOAD_LIMIT < length tenMiB \<and>
   uploadToOneDrive abortingServer sampleToken tenMiB ''f.bin'' None [] =
     (Inl (Error ''Resumable upload failed at byte 0: 500 Internal Server Error - boom''),
      [oneDriveSessionRequest ''token'' ''f.bin'', chunkRequest ''https://up'' tenMiB 0]) \<and>
   chunkEnd 0 (length tenMiB) = 3932160 \<and> length tenMiB = 10485760 \<and>
   snd (uploadToOneDrive abortingServer sampleToken tenMiB ''f.bin'' None []) \<noteq>
     oneDriveSessionRequest ''token'' ''f.bin'' #
       chunkRequests ''https://up'' tenMiB (chunkCount (length tenMiB))"
proof -
  let ?log = "[oneDriveSessionRequest ''token'' ''f.bin'']"
  let ?res = "\<lparr>status = 500, statusText = ''Internal Server Error'', bodyText = Inr ''boom'',
                bodyJson = Inl (Rejected ''SyntaxError'')\<rparr>"
  have ans: "abortingServer (?log @ [chunkRequest ''https://up'' tenMiB 0]) = Inr ?res"
    by (simp add: abortingServer_def scripted_def plainAnswer_def)
  have nonempty: "0 < length tenMiB" by (simp add: tenMiB_def)
  have loop: "resumableLoop abortingServer ''https://up'' tenMiB 0 ?log =
      (Inl (chunkFailure 0 ?res), ?log @ [chunkRequest ''https://up'' tenMiB 0])"
    using nonempty ans by (rule loop_failed) simp_all
  have run: "uploadToOneDrive abortingServer sampleToken tenMiB ''f.bin'' None [] =
     (Inl (Error ''Resumable upload failed at byte 0: 500 Internal Server Error - boom''),
      [oneDriveSessionRequest ''token'' ''f.bin'', chunkRequest ''https://up'' tenMiB 0])"
    using large_tenMiB loop
    by (simp add: uploadToOneDrive_def Let_def abortingServer_def fetch_scripted sessionAnswer_def
        jsonAnswer_def ok_def noFields_def sampleToken_def uploadViaResumableSession_def
        chunkFailure_def textOrEmpty_def eval_decimal)
  have e: "chunkEnd 0 (length tenMiB) = 3932160" "length tenMiB = 10485760"
    by (simp_all add: chunkEnd_def RESUMABLE_CHUNK_SIZE_def tenMiB_def)
  have "length (snd (uploadToOneDrive abortingServer sampleToken tenMiB ''f.bin'' None [])) \<noteq>
        length (oneDriveSessionRequest ''token'' ''f.bin'' #
                 chunkRequests ''https://up'' tenMiB (chunkCount (length tenMiB)))"
    by (simp add: run chunkCount_tenMiB)
  then have ne: "snd (uploadToOneDrive abortingServer sampleToken tenMiB ''f.bin'' None []) \<noteq>
     oneDriveSessionRequest ''token'' ''f.bin'' #
       chunkRequests ''https://up'' tenMiB (chunkCount (length tenMiB))"
    by metis
  show ?thesis
    by (intro conjI large_tenMiB run e ne)
qed

subsection \<open>The choice of the strategy\<close>

lemma chunkRequests_0: "chunkRequests uploadUrl buffer 0 = []"
  by (simp add: chunkRequests_def)

lemma oneDrive_small:
  "length buffer \<le> SIMPLE_UPLOAD_LIMIT \<Longrightarrow>
   snd (uploadToOneDrive fetchFn tokenProvider buffer filename contentType log) =
     log @ [oneDriveContentRequest (tokenProvider GRAPH_SCOPE) filename contentType buffer]"
  by (simp add: uploadToOneDrive_def Let_def fetch_def split: sum.split)

lemma sharePoint_small:
  "length buffer \<le> SIMPLE_UPLOAD_LIMIT \<Longrightarrow>
   snd (uploadToSharePoint fetchFn tokenProvider buffer filename contentType siteId log) =
     log @ [sharePointContentRequest (tokenProvider GRAPH_SCOPE) siteId filename contentType buffer]"
  by (simp add: uploadToSharePoint_def Let_def fetch_def split: sum.split)

lemma oneDrive_large:
  assumes "SIMPLE_UPLOAD_LIMIT < length buffer"
    and "fetchFn (log @ [oneDriveSessionRequest (tokenProvider GRAPH_SCOPE) filename]) = Inr res"
    and "ok res" and "bodyJson res = Inr session" and "truthy (j_uploadUrl session)"
  shows "uploadToOneDrive fetchFn tokenProvider buffer filename contentType log =
         uploadViaResumableSession fetchFn (the (j_uploadUrl session)) buffer
           (log @ [oneDriveSessionRequest (tokenProvider GRAPH_SCOPE) filename])"
  using assms by (simp add: uploadToOneDrive_def Let_def fetch_def)

lemma sharePoint_large:
  assumes "SIMPLE_UPLOAD_LIMIT < length buffer"
    and "fetchFn (log @ [sharePointSessionRequest (tokenProvider GRAPH_SCOPE) siteId filename]) = Inr res"
    and "ok res" and "bodyJson res = Inr session" and "truthy (j_uploadUrl session)"
  shows "uploadToSharePoint fetchFn tokenProvider buffer filename contentType siteId log =
         uploadViaResumableSession fetchFn (the (j_uploadUrl session)) buffer
           (log @ [sharePointSessionRequest (tokenProvider GRAPH_SCOPE) siteId filename])"
  using assms by (simp add: uploadToSharePoint_def Let_def fetch_def)

lemma oneDrive_large_trace:
  assumes "SIMPLE_UPLOAD_LIMIT < length buffer"
  shows "\<exists>uploadUrl k.
     snd (uploadToOneDrive fetchFn tokenProvider buffer filename contentType log) =
       log @ oneDriveSessionRequest (tokenProvider GRAPH_SCOPE) filename #
         chunkRequests uploadUrl buffer k"
proof -
  let ?req = "oneDriveSessionRequest (tokenProvider GRAPH_SCOPE) filename"
  let ?run = "uploadToOneDrive fetchFn tokenProvider buffer filename contentType log"
  have stop: "snd ?run = log @ [?req] \<Longrightarrow> ?thesis"
    by (intro exI [of _ "[]"] exI [of _ 0]) (simp add: chunkRequests_0)
  show ?thesis
  proof (cases "fetchFn (log @ [?req])")
    case (Inl e)
    with assms show ?thesis
      by (intro stop) (simp add: uploadToOneDrive_def Let_def fetch_def)
  next
    case (Inr res)
    show ?thesis
    proof (cases "ok res \<and> (\<exists>session. bodyJson res = Inr session \<and> truthy (j_uploadUrl session))")
      case False
      with assms Inr show ?thesis
        by (intro stop) (auto simp: uploadToOneDrive_def Let_def fetch_def split: sum.split)
    next
      case True
      then obtain session where s: "ok res" "bodyJson res = Inr session" "truthy (j_uploadUrl session)"
        by blast
      from resumable_issues_prefix [of buffer fetchFn "the (j_uploadUrl session)" "log @ [?req]"]
      obtain k where "snd (uploadViaResumableSession fetchFn (the (j_uploadUrl session)) buffer
            (log @ [?req])) = (log @ [?req]) @ chunkRequests (the (j_uploadUrl session)) buffer k"
        by blast
      then show ?thesis
        using oneDrive_large [where fetchFn = fetchFn and tokenProvider = tokenProvider
            and log = log and filename = filename and contentType = contentType,
            OF assms Inr s]
        by (intro exI [of _ "the (j_uploadUrl session)"] exI [of _ k]) simp
    qed
  qed
qed

lemma sharePoint_large_trace:
  assumes "SIMPLE_UPLOAD_LIMIT < length buffer"
  shows "\<exists>uploadUrl k.
     snd (uploadToSharePoint fetchFn tokenProvider buffer filename contentType siteId log) =
       log @ sharePointSessionRequest (tokenProvider GRAPH_SCOPE) siteId filename #
         chunkRequests uploadUrl buffer k"
proof -
  let ?req = "sharePointSessionRequest (tokenProvider GRAPH_SCOPE) siteId filename"
  let ?run = "uploadToSharePoint fetchFn tokenProvider buffer filename contentType siteId log"
  have stop: "snd ?run = log @ [?req] \<Longrightarrow> ?thesis"
    by (intro exI [of _ "[]"] exI [of _ 0]) (simp add: chunkRequests_0)
  show ?thesis
  proof (cases "fetchFn (log @ [?req])")
    case (Inl e)
    with assms show ?thesis
      by (intro stop) (simp add: uploadToSharePoint_def Let_def fetch_def)
  next
    case (Inr res)
    show ?thesis
    proof (cases "ok res \<and> (\<exists>session. bodyJson res = Inr session \<and> truthy (j_uploadUrl session))")
      case False
      with assms Inr show ?thesis
        by (intro stop) (auto simp: uploadToSharePoint_def Let_def fetch_def split: sum.split)
    next
      case True
      then obtain session where s: "ok res" "bodyJson res = Inr session" "truthy (j_uploadUrl session)"
        by blast
      from resumable_issues_prefix [of buffer fetchFn "the (j_uploadUrl session)" "log @ [?req]"]
      obtain k where "snd (uploadViaResumableSession fetchFn (the (j_uploadUrl session)) buffer
            (log @ [?req])) = (log @ [?req]) @ chunkRequests (the (j_uploadUrl session)) buffer k"
        by blast
      then show ?thesis
        using sharePoint_large [where fetchFn = fetchFn and tokenProvider = tokenProvider
            and log = log and filename = filename and contentType = contentType
            and siteId = siteId, OF assms Inr s]
        by (intro exI [of _ "the (j_uploadUrl session)"] exI [of _ k]) simp
    qed
  qed
qed

lemma oneDrive_not_established:
  assumes "SIMPLE_UPLOAD_LIMIT < length buffer"
    and "\<not> (\<exists>res session. fetchFn (log @ [oneDriveSessionRequest (tokenProvider GRAPH_SCOPE) filename]) = Inr res \<and>
              ok res \<and> bodyJson res = Inr session \<and> truthy (j_uploadUrl session))"
  shows "snd (uploadToOneDrive fetchFn tokenProvider buffer filename contentType log) =
           log @ [oneDriveSessionRequest (tokenProvider GRAPH_SCOPE) filename] \<and>
         (\<exists>e. fst (uploadToOneDrive fetchFn tokenProvider buffer filename contentType log) = Inl e)"
  using assms
  by (auto simp: uploadToOneDrive_def Let_def fetch_def split: sum.split)

lemma sharePoint_not_established:
  assumes "SIMPLE_UPLOAD_LIMIT < length buffer"
    and "\<not> (\<exists>res session. fetchFn (log @ [sharePointSessionRequest (tokenProvider GRAPH_SCOPE) siteId filename]) = Inr res \<and>
              ok res \<and> bodyJson res = Inr session \<and> truthy (j_uploadUrl session))"
  shows "snd (uploadToSharePoint fetchFn tokenProvider buffer filename contentType siteId log) =
           log @ [sharePointSessionRequest (tokenProvider GRAPH_SCOPE) siteId filename] \<and>
         (\<exists>e. fst (uploadToSharePoint fetchFn tokenProvider buffer filename contentType siteId log) = Inl e)"
  using assms
  by (auto simp: uploadToSharePoint_def Let_def fetch_def split: sum.split)

lemma truthy_iff: "truthy x \<longleftrightarrow> (\<exists>u. x = Some u \<and> u \<noteq> [])"
  by (cases x) simp_all

lemma orElse_case: "orElse x d = (case x of None \<Rightarrow> d | Some v \<Rightarrow> v)"
  by (cases x) simp_all

text \<open>
  C5 (amended). Both uploadToOneDrive and uploadToSharePoint choose the strategy from the
  byte length alone, with the threshold 4,194,304. Up to it the operation issues exactly
  one request, the simple transfer \<open>PUT {root}/...:/content\<close> of the whole payload, and
  no upload session is created. Above it the first request is the session creation
  \<open>POST {root}/...:/createUploadSession\<close>, every later request is a chunk submission
  of the resumable executor, and the simple transfer is never issued. The executor is used
  exactly when the session creation is answered 2xx with a non-empty \<open>uploadUrl\<close>: the
  operation is then the run of the executor on that URL. Otherwise the operation fails
  after that one request.
\<close>

theorem strategy_by_length:
  fixes fetchFn :: fetchFn and tokenProvider :: tokenProvider and buffer :: "byte list"
    and filename siteId :: string and contentType :: "string option" and log :: "request list"
  defines "path \<equiv> ''/OpenClawShared/'' @ encodeURIComponent filename"
    and "contentHeaders \<equiv>
           [(''Authorization'', ''Bearer '' @ tokenProvider ''https://graph.microsoft.com''),
            (''Content-Type'',
               case contentType of None \<Rightarrow> ''application/octet-stream'' | Some t \<Rightarrow> t)]"
    and "sessionHeaders \<equiv>
           [(''Authorization'', ''Bearer '' @ tokenProvider ''https://graph.microsoft.com''),
            (''Content-Type'', ''application/json'')]"
    and "sessionBody \<equiv> JSON_stringify (JObject [(''item'', JObject [(''name'', JString filename)])])"
  defines "oneDrivePut \<equiv>
           \<lparr>url = ''https://graph.microsoft.com/v1.0/me/drive/root:'' @ path @ '':/content'',
            http_method = Some ''PUT'', headers = contentHeaders, body = Some (Bytes buffer)\<rparr>"
    and "sharePointPut \<equiv>
           \<lparr>url = ''https://graph.microsoft.com/v1.0/sites/'' @ siteId @ ''/drive/root:'' @ path @
                  '':/content'',
            http_method = Some ''PUT'', headers = contentHeaders, body = Some (Bytes buffer)\<rparr>"
    and "oneDrivePost \<equiv>
           \<lparr>url = ''https://graph.microsoft.com/v1.0/me/drive/root:'' @ path @
                  '':/createUploadSession'',
            http_method = Some ''POST'', headers = sessionHeaders, body = Some sessionBody\<rparr>"
    and "sharePointPost \<equiv>
           \<lparr>url = ''https://graph.microsoft.com/v1.0/sites/'' @ siteId @ ''/drive/root:'' @ path @
                  '':/createUploadSession'',
            http_method = Some ''POST'', headers = sessionHeaders, body = Some sessionBody\<rparr>"
    and "oneDrive \<equiv> uploadToOneDrive fetchFn tokenProvider buffer filename contentType log"
    and "sharePoint \<equiv> uploadToSharePoint fetchFn tokenProvider buffer filename contentType siteId log"
  shows
    "(length buffer \<le> 4194304 \<longrightarrow>
        snd oneDrive = log @ [oneDrivePut] \<and> snd sharePoint = log @ [sharePointPut]) \<and>
     (4194304 < length buffer \<longrightarrow>
        (\<exists>uploadUrl k. snd oneDrive = log @ oneDrivePost # chunkRequests uploadUrl buffer k) \<and>
        (\<exists>uploadUrl k. snd sharePoint = log @ sharePointPost # chunkRequests uploadUrl buffer k) \<and>
        oneDrivePut \<notin> set (drop (length log) (snd oneDrive)) \<and>
        sharePointPut \<notin> set (drop (length log) (snd sharePoint)) \<and>
        (\<forall>res session uploadUrl.
           fetchFn (log @ [oneDrivePost]) = Inr res \<and> 200 \<le> status res \<and> status res \<le> 299 \<and>
           bodyJson res = Inr session \<and> j_uploadUrl session = Some uploadUrl \<and> uploadUrl \<noteq> [] \<longrightarrow>
           oneDrive = uploadViaResumableSession fetchFn uploadUrl buffer (log @ [oneDrivePost])) \<and>
        (\<forall>res session uploadUrl.
           fetchFn (log @ [sharePointPost]) = Inr res \<and> 200 \<le> status res \<and> status res \<le> 299 \<and>
           bodyJson res = Inr session \<and> j_uploadUrl session = Some uploadUrl \<and> uploadUrl \<noteq> [] \<longrightarrow>
           sharePoint = uploadViaResumableSession fetchFn uploadUrl buffer (log @ [sharePointPost])) \<and>
        (\<not> (\<exists>res session uploadUrl.
              fetchFn (log @ [oneDrivePost]) = Inr res \<and> 200 \<le> status res \<and> status res \<le> 299 \<and>
              bodyJson res = Inr session \<and> j_uploadUrl session = Some uploadUrl \<and> uploadUrl \<noteq> []) \<longrightarrow>
           snd oneDrive = log @ [oneDrivePost] \<and> (\<exists>e. fst oneDrive = Inl e)) \<and>
        (\<not> (\<exists>res session uploadUrl.
              fetchFn (log @ [sharePointPost]) = Inr res \<and> 200 \<le> status res \<and> status res \<le> 299 \<and>
              bodyJson res = Inr session \<and> j_uploadUrl session = Some uploadUrl \<and> uploadUrl \<noteq> []) \<longrightarrow>
           snd sharePoint = log @ [sharePointPost] \<and> (\<exists>e. fst sharePoint = Inl e)))"
proof -
  have put1: "oneDrivePut = oneDriveContentRequest (tokenProvider GRAPH_SCOPE) filename contentType buffer"
    and put2: "sharePointPut =
        sharePointContentRequest (tokenProvider GRAPH_SCOPE) siteId filename contentType buffer"
    and post1: "oneDrivePost = oneDriveSessionRequest (tokenProvider GRAPH_SCOPE) filename"
    and post2: "sharePointPost = sharePointSessionRequest (tokenProvider GRAPH_SCOPE) siteId filename"
    by (simp_all add: oneDrivePut_def sharePointPut_def oneDrivePost_def sharePointPost_def
        oneDriveContentRequest_def sharePointContentRequest_def oneDriveSessionRequest_def
        sharePointSessionRequest_def GRAPH_ROOT_def GRAPH_SCOPE_def path_def contentHeaders_def
        sessionHeaders_def sessionBody_def orElse_case)
  have limit: "SIMPLE_UPLOAD_LIMIT = 4194304"
    by (simp add: SIMPLE_UPLOAD_LIMIT_def)
  have established: "(\<exists>res session uploadUrl.
              fetchFn (log @ [r]) = Inr res \<and> 200 \<le> status res \<and> status res \<le> 299 \<and>
              bodyJson res = Inr session \<and> j_uploadUrl session = Some uploadUrl \<and> uploadUrl \<noteq> []) =
      (\<exists>res session. fetchFn (log @ [r]) = Inr res \<and> ok res \<and> bodyJson res = Inr session \<and>
              truthy (j_uploadUrl session))" for r
    by (auto simp: ok_def truthy_iff)
  show ?thesis
  proof (intro conjI impI allI)
    assume small: "length buffer \<le> 4194304"
    show "snd oneDrive = log @ [oneDrivePut]"
      unfolding oneDrive_def put1 using small by (intro oneDrive_small) (simp add: limit)
    show "snd sharePoint = log @ [sharePointPut]"
      unfolding sharePoint_def put2 using small by (intro sharePoint_small) (simp add: limit)
  next
    assume large: "4194304 < length buffer"
    then have large': "SIMPLE_UPLOAD_LIMIT < length buffer" by (simp add: limit)
    show "\<exists>uploadUrl k. snd oneDrive = log @ oneDrivePost # chunkRequests uploadUrl buffer k"
      unfolding oneDrive_def post1 using large' by (rule oneDrive_large_trace)
    show "\<exists>uploadUrl k. snd sharePoint = log @ sharePointPost # chunkRequests uploadUrl buffer k"
      unfolding sharePoint_def post2 using large' by (rule sharePoint_large_trace)
    have no_put: "r \<notin> set (drop (length log) (log @ p # chunkRequests uploadUrl buffer k))"
      if "http_method p = Some ''POST''" "http_method r = Some ''PUT''"
        "map fst (headers r) = [''Authorization'', ''Content-Type'']"
      for r p :: request and uploadUrl k
      using that by (auto simp: chunkRequests_def chunkRequest_def Let_def)
    from \<open>\<exists>uploadUrl k. snd oneDrive = log @ oneDrivePost # chunkRequests uploadUrl buffer k\<close>
    show "oneDrivePut \<notin> set (drop (length log) (snd oneDrive))"
      by (auto simp: no_put oneDrivePost_def oneDrivePut_def contentHeaders_def
          simp del: drop_append append.simps)
    from \<open>\<exists>uploadUrl k. snd sharePoint = log @ sharePointPost # chunkRequests uploadUrl buffer k\<close>
    show "sharePointPut \<notin> set (drop (length log) (snd sharePoint))"
      by (auto simp: no_put sharePointPost_def sharePointPut_def contentHeaders_def
          simp del: drop_append append.simps)
    show "oneDrive = uploadViaResumableSession fetchFn uploadUrl buffer (log @ [oneDrivePost])"
      if "fetchFn (log @ [oneDrivePost]) = Inr res \<and> 200 \<le> status res \<and> status res \<le> 299 \<and>
           bodyJson res = Inr session \<and> j_uploadUrl session = Some uploadUrl \<and> uploadUrl \<noteq> []"
      for res session uploadUrl
      using that large' unfolding oneDrive_def post1
      by (simp add: uploadToOneDrive_def Let_def fetch_def ok_def)
    show "sharePoint = uploadViaResumableSession fetchFn uploadUrl buffer (log @ [sharePointPost])"
      if "fetchFn (log @ [sharePointPost]) = Inr res \<and> 200 \<le> status res \<and> status res \<le> 299 \<and>
           bodyJson res = Inr session \<and> j_uploadUrl session = Some uploadUrl \<and> uploadUrl \<noteq> []"
      for res session uploadUrl
      using that large' unfolding sharePoint_def post2
      by (simp add: uploadToSharePoint_def Let_def fetch_def ok_def)
    show "snd oneDrive = log @ [oneDrivePost]" "\<exists>e. fst oneDrive = Inl e"
      if "\<not> (\<exists>res session uploadUrl.
              fetchFn (log @ [oneDrivePost]) = Inr res \<and> 200 \<le> status res \<and> status res \<le> 299 \<and>
              bodyJson res = Inr session \<and> j_uploadUrl session = Some uploadUrl \<and> uploadUrl \<noteq> [])"
      using that oneDrive_not_established [OF large', of fetchFn log tokenProvider filename contentType]
      unfolding oneDrive_def post1 established by blast+
    show "snd sharePoint = log @ [sharePointPost]" "\<exists>e. fst sharePoint = Inl e"
      if "\<not> (\<exists>res session uploadUrl.
              fetchFn (log @ [sharePointPost]) = Inr res \<and> 200 \<le> status res \<and> status res \<le> 299 \<and>
              bodyJson res = Inr session \<and> j_uploadUrl session = Some uploadUrl \<and> uploadUrl \<noteq> [])"
      using that sharePoint_not_established [OF large', of fetchFn log tokenProvider siteId filename contentType]
      unfolding sharePoint_def post2 established by blast+
  qed
qed

lemma small_oneMiB: "length oneMiB \<le> SIMPLE_UPLOAD_LIMIT"
  by (simp add: SIMPLE_UPLOAD_LIMIT_def oneMiB_def)

lemma scenario1_after_session:
  "uploadViaResumableSession scenario1WithSession ''https://up'' tenMiB [req] =
     (Inr \<lparr>item_id = ''x'', item_webUrl = ''u'', item_name = ''f''\<rparr>,
      req # chunkRequests ''https://up'' tenMiB 3)"
proof -
  have acc: "accepted scenario1WithSession [req] ''https://up'' tenMiB 2"
    by (simp add: numeral_2_eq_2 accepted_eval scenario1WithSession_def)
  have below: "chunkOffset 2 < length tenMiB"
    by (simp add: chunkOffset_def RESUMABLE_CHUNK_SIZE_def tenMiB_def)
  have ans: "answerTo scenario1WithSession [req] ''https://up'' tenMiB 2 =
      Inr \<lparr>status = 201, statusText = ''OK'', bodyText = Inr [], bodyJson = Inr uploadedItem\<rparr>"
    by (simp add: answerTo_def scenario1WithSession_def scripted_def jsonAnswer_def)
  show ?thesis
    using completion_after_accepted(1) [OF acc below ans]
    by (simp add: completionResult_def uploadedItem_def noFields_def numeral_3_eq_3)
qed

lemma four_MiB_oneMiB: "length oneMiB \<le> 4194304"
  by (simp add: oneMiB_def)

lemma above_4194304_tenMiB: "4194304 < length tenMiB"
  by (simp add: tenMiB_def)

lemmas eval_encode = encodeURIComponent_def encodeChar_def unreservedChars_def hexChar_def

theorem strategy_by_length_witness:
  "length oneMiB \<le> 4194304 \<and>
   snd (uploadToOneDrive scenario2 sampleToken oneMiB ''my file.bin'' None []) =
     [\<lparr>url = ''https://graph.microsoft.com/v1.0/me/drive/root:/OpenClawShared/my%20file.bin:/content'',
       http_method = Some ''PUT'',
       headers = [(''Authorization'', ''Bearer token''),
                  (''Content-Type'', ''application/octet-stream'')],
       body = Some (Bytes oneMiB)\<rparr>] \<and>
   snd (uploadToSharePoint scenario2 sampleToken oneMiB ''my file.bin'' (Some ''text/plain'') ''site'' []) =
     [\<lparr>url = ''https://graph.microsoft.com/v1.0/sites/site/drive/root:/OpenClawShared/my%20file.bin:/content'',
       http_method = Some ''PUT'',
       headers = [(''Authorization'', ''Bearer token''), (''Content-Type'', ''text/plain'')],
       body = Some (Bytes oneMiB)\<rparr>] \<and>
   4194304 < length tenMiB \<and>
   uploadToOneDrive scenario1WithSession sampleToken tenMiB ''my file.bin'' None [] =
     (Inr \<lparr>item_id = ''x'', item_webUrl = ''u'', item_name = ''f''\<rparr>,
      \<lparr>url = ''https://graph.microsoft.com/v1.0/me/drive/root:/OpenClawShared/my%20file.bin:/createUploadSession'',
       http_method = Some ''POST'',
       headers = [(''Authorization'', ''Bearer token''), (''Content-Type'', ''application/json'')],
       body = Some (JSON_stringify (JObject [(''item'', JObject [(''name'', JString ''my file.bin'')])]))\<rparr>
      # chunkRequests ''https://up'' tenMiB 3) \<and>
   uploadToSharePoint scenario1WithSession sampleToken tenMiB ''my file.bin'' None ''site'' [] =
     (Inr \<lparr>item_id = ''x'', item_webUrl = ''u'', item_name = ''f''\<rparr>,
      \<lparr>url = ''https://graph.microsoft.com/v1.0/sites/site/drive/root:/OpenClawShared/my%20file.bin:/createUploadSession'',
       http_method = Some ''POST'',
       headers = [(''Authorization'', ''Bearer token''), (''Content-Type'', ''application/json'')],
       body = Some (JSON_stringify (JObject [(''item'', JObject [(''name'', JString ''my file.bin'')])]))\<rparr>
      # chunkRequests ''https://up'' tenMiB 3) \<and>
   snd (uploadToOneDrive sessionRefused sampleToken tenMiB ''my file.bin'' None []) =
     [\<lparr>url = ''https://graph.microsoft.com/v1.0/me/drive/root:/OpenClawShared/my%20file.bin:/createUploadSession'',
       http_method = Some ''POST'',
       headers = [(''Authorization'', ''Bearer token''), (''Content-Type'', ''application/json'')],
       body = Some (JSON_stringify (JObject [(''item'', JObject [(''name'', JString ''my file.bin'')])]))\<rparr>]"
proof -
  let ?post1 = "\<lparr>url = ''https://graph.microsoft.com/v1.0/me/drive/root:/OpenClawShared/my%20file.bin:/createUploadSession'',
       http_method = Some ''POST'',
       headers = [(''Authorization'', ''Bearer token''), (''Content-Type'', ''application/json'')],
       body = Some (JSON_stringify (JObject [(''item'', JObject [(''name'', JString ''my file.bin'')])]))\<rparr>"
  let ?post2 = "\<lparr>url = ''https://graph.microsoft.com/v1.0/sites/site/drive/root:/OpenClawShared/my%20file.bin:/createUploadSession'',
       http_method = Some ''POST'',
       headers = [(''Authorization'', ''Bearer token''), (''Content-Type'', ''application/json'')],
       body = Some (JSON_stringify (JObject [(''item'', JObject [(''name'', JString ''my file.bin'')])]))\<rparr>"
  let ?session = "noFields\<lparr>j_uploadUrl := Some ''https://up''\<rparr>"
  let ?res = "\<lparr>status = 200, statusText = ''OK'', bodyText = Inr [], bodyJson = Inr ?session\<rparr>"
  have enc: "encodeURIComponent ''my file.bin'' = ''my%20file.bin''"
    by (simp add: eval_encode)
  have tok: "sampleToken ''https://graph.microsoft.com'' = ''token''"
    by (simp add: sampleToken_def)
  note small1 = strategy_by_length [of oneMiB scenario2 sampleToken "''my file.bin''" None "[]"
      "''site''", unfolded enc tok]
  note small2 = strategy_by_length [of oneMiB scenario2 sampleToken "''my file.bin''"
      "Some ''text/plain''" "[]" "''site''", unfolded enc tok]
  note large = strategy_by_length [of tenMiB scenario1WithSession sampleToken "''my file.bin''" None
      "[]" "''site''", unfolded enc tok]
  note refused = strategy_by_length [of tenMiB sessionRefused sampleToken "''my file.bin''" None
      "[]" "''site''", unfolded enc tok]
  have s1: "snd (uploadToOneDrive scenario2 sampleToken oneMiB ''my file.bin'' None []) =
     [\<lparr>url = ''https://graph.microsoft.com/v1.0/me/drive/root:/OpenClawShared/my%20file.bin:/content'',
       http_method = Some ''PUT'',
       headers = [(''Authorization'', ''Bearer token''),
                  (''Content-Type'', ''application/octet-stream'')],
       body = Some (Bytes oneMiB)\<rparr>]"
    using small1 four_MiB_oneMiB by simp
  have s2: "snd (uploadToSharePoint scenario2 sampleToken oneMiB ''my file.bin'' (Some ''text/plain'')
        ''site'' []) =
     [\<lparr>url = ''https://graph.microsoft.com/v1.0/sites/site/drive/root:/OpenClawShared/my%20file.bin:/content'',
       http_method = Some ''PUT'',
       headers = [(''Authorization'', ''Bearer token''), (''Content-Type'', ''text/plain'')],
       body = Some (Bytes oneMiB)\<rparr>]"
    using small2 four_MiB_oneMiB by simp
  have established: "scenario1WithSession [req] = Inr ?res" "status ?res = 200"
    "bodyJson ?res = Inr ?session" "j_uploadUrl ?session = Some ''https://up''" for req
    by (simp_all add: scenario1WithSession_def scripted_def sessionAnswer_def jsonAnswer_def
        noFields_def)
  from large above_4194304_tenMiB have
    "uploadToOneDrive scenario1WithSession sampleToken tenMiB ''my file.bin'' None [] =
       uploadViaResumableSession scenario1WithSession ''https://up'' tenMiB [?post1]"
    using established(1) [of ?post1] established(2-4) by auto
  then have l1: "uploadToOneDrive scenario1WithSession sampleToken tenMiB ''my file.bin'' None [] =
     (Inr \<lparr>item_id = ''x'', item_webUrl = ''u'', item_name = ''f''\<rparr>,
      ?post1 # chunkRequests ''https://up'' tenMiB 3)"
    by (simp only: scenario1_after_session)
  from large above_4194304_tenMiB have
    "uploadToSharePoint scenario1WithSession sampleToken tenMiB ''my file.bin'' None ''site'' [] =
       uploadViaResumableSession scenario1WithSession ''https://up'' tenMiB [?post2]"
    using established(1) [of ?post2] established(2-4) by auto
  then have l2: "uploadToSharePoint scenario1WithSession sampleToken tenMiB ''my file.bin'' None
       ''site'' [] =
     (Inr \<lparr>item_id = ''x'', item_webUrl = ''u'', item_name = ''f''\<rparr>,
      ?post2 # chunkRequests ''https://up'' tenMiB 3)"
    by (simp only: scenario1_after_session)
  have no_session: "sessionRefused [req] = Inr res \<Longrightarrow> status res = 500" for req res
    by (auto simp: sessionRefused_def scripted_def plainAnswer_def)
  from refused above_4194304_tenMiB have r1: "snd (uploadToOneDrive sessionRefused sampleToken tenMiB
      ''my file.bin'' None []) = [?post1]"
    using no_session [of ?post1] by auto
  show ?thesis
    by (intro conjI four_MiB_oneMiB s1 s2 above_4194304_tenMiB l1 l2 r1)
qed

text \<open>
  The claim as first stated has a session created and the executor used for every payload
  above 4 MiB. When the session creation is answered 500, the operation fails after that
  one request: no session exists and no chunk is submitted.
\<close>

theorem strategy_by_length_counterexample:
  "4194304 < length tenMiB \<and>
   uploadToOneDrive sessionRefused sampleToken tenMiB ''my file.bin'' None [] =
     (Inl (Error ''OneDrive create upload session failed: 500 Internal Server Error - boom''),
      [\<lparr>url = ''https://graph.microsoft.com/v1.0/me/drive/root:/OpenClawShared/my%20file.bin:/createUploadSession'',
        http_method = Some ''POST'',
        headers = [(''Authorization'', ''Bearer token''), (''Content-Type'', ''application/json'')],
        body = Some (JSON_stringify (JObject [(''item'', JObject [(''name'', JString ''my file.bin'')])]))\<rparr>])"
proof -
  have dec: "String_of 500 = ''500''" by (simp add: String_of.simps digitChar_def)
  have "uploadToOneDrive sessionRefused sampleToken tenMiB ''my file.bin'' None [] =
     (Inl (Error ''OneDrive create upload session failed: 500 Internal Server Error - boom''),
      [\<lparr>url = ''https://graph.microsoft.com/v1.0/me/drive/root:/OpenClawShared/my%20file.bin:/createUploadSession'',
        http_method = Some ''POST'',
        headers = [(''Authorization'', ''Bearer token''), (''Content-Type'', ''application/json'')],
        body = Some (JSON_stringify (JObject [(''item'', JObject [(''name'', JString ''my file.bin'')])]))\<rparr>])"
    using large_tenMiB
    by (simp add: uploadToOneDrive_def Let_def sessionRefused_def fetch_scripted plainAnswer_def
        ok_def httpFailure_def textOrEmpty_def dec sampleToken_def oneDriveSessionRequest_def
        GRAPH_ROOT_def GRAPH_SCOPE_def eval_encode)
  with above_4194304_tenMiB show ?thesis by (intro conjI)
qed

subsection \<open>Required fields of the responses\<close>

text \<open>
  C7. A success (2xx) response whose parsed body lacks a required field makes the
  operation throw the error of that call site; no partial result is returned. The simple
  upload (OneDrive and SharePoint) needs \<open>id\<close>, \<open>webUrl\<close> and \<open>name\<close>; the
  session creation needs \<open>uploadUrl\<close>; getDriveItemProperties needs \<open>eTag\<close>,
  \<open>webDavUrl\<close> and \<open>name\<close>; the link creation (SharePoint and OneDrive) needs
  \<open>link.webUrl\<close>. A field that is absent, or an empty string, is lacking.
\<close>

theorem missing_field_is_an_error:
  "(length buffer \<le> SIMPLE_UPLOAD_LIMIT \<and>
    fetchFn (log @ [oneDriveContentRequest (tokenProvider GRAPH_SCOPE) filename contentType buffer]) = Inr res \<and>
    ok res \<and> bodyJson res = Inr data \<and>
    (\<not> truthy (j_id data) \<or> \<not> truthy (j_webUrl data) \<or> \<not> truthy (j_name data)) \<longrightarrow>
    uploadToOneDrive fetchFn tokenProvider buffer filename contentType log =
      (Inl (Error ''OneDrive upload response missing required fields''),
       log @ [oneDriveContentRequest (tokenProvider GRAPH_SCOPE) filename contentType buffer])) \<and>
   (length buffer \<le> SIMPLE_UPLOAD_LIMIT \<and>
    fetchFn (log @ [sharePointContentRequest (tokenProvider GRAPH_SCOPE) siteId filename contentType buffer]) = Inr res \<and>
    ok res \<and> bodyJson res = Inr data \<and>
    (\<not> truthy (j_id data) \<or> \<not> truthy (j_webUrl data) \<or> \<not> truthy (j_name data)) \<longrightarrow>
    uploadToSharePoint fetchFn tokenProvider buffer filename contentType siteId log =
      (Inl (Error ''SharePoint upload response missing required fields''),
       log @ [sharePointContentRequest (tokenProvider GRAPH_SCOPE) siteId filename contentType buffer])) \<and>
   (SIMPLE_UPLOAD_LIMIT < length buffer \<and>
    fetchFn (log @ [oneDriveSessionRequest (tokenProvider GRAPH_SCOPE) filename]) = Inr res \<and>
    ok res \<and> bodyJson res = Inr data \<and> \<not> truthy (j_uploadUrl data) \<longrightarrow>
    uploadToOneDrive fetchFn tokenProvider buffer filename contentType log =
      (Inl (Error ''OneDrive create upload session response missing uploadUrl''),
       log @ [oneDriveSessionRequest (tokenProvider GRAPH_SCOPE) filename])) \<and>
   (SIMPLE_UPLOAD_LIMIT < length buffer \<and>
    fetchFn (log @ [sharePointSessionRequest (tokenProvider GRAPH_SCOPE) siteId filename]) = Inr res \<and>
    ok res \<and> bodyJson res = Inr data \<and> \<not> truthy (j_uploadUrl data) \<longrightarrow>
    uploadToSharePoint fetchFn tokenProvider buffer filename contentType siteId log =
      (Inl (Error ''SharePoint create upload session response missing uploadUrl''),
       log @ [sharePointSessionRequest (tokenProvider GRAPH_SCOPE) siteId filename])) \<and>
   (fetchFn (log @ [driveItemRequest (tokenProvider GRAPH_SCOPE) siteId itemId]) = Inr res \<and>
    ok res \<and> bodyJson res = Inr data \<and>
    (\<not> truthy (j_eTag data) \<or> \<not> truthy (j_webDavUrl data) \<or> \<not> truthy (j_name data)) \<longrightarrow>
    getDriveItemProperties fetchFn tokenProvider siteId itemId log =
      (Inl (Error ''DriveItem response missing required properties (eTag, webDavUrl, or name)''),
       log @ [driveItemRequest (tokenProvider GRAPH_SCOPE) siteId itemId])) \<and>
   (fetchFn (log @ [sharingLinkRequest (tokenProvider GRAPH_SCOPE) siteId itemId
                      (orElse scopeParam organization) recipientObjectIds]) = Inr res \<and>
    ok res \<and> bodyJson res = Inr data \<and>
    (j_link data = None \<or> (\<exists>link. j_link data = Some link \<and> \<not> truthy (link_webUrl link))) \<longrightarrow>
    createSharePointSharingLink fetchFn tokenProvider siteId itemId scopeParam recipientObjectIds log =
      (Inl (Error ''Create SharePoint sharing link response missing webUrl''),
       log @ [sharingLinkRequest (tokenProvider GRAPH_SCOPE) siteId itemId
                (orElse scopeParam organization) recipientObjectIds])) \<and>
   (fetchFn (log @ [oneDriveLinkRequest (tokenProvider GRAPH_SCOPE) itemId linkScope]) = Inr res \<and>
    ok res \<and> bodyJson res = Inr data \<and>
    (j_link data = None \<or> (\<exists>link. j_link data = Some link \<and> \<not> truthy (link_webUrl link))) \<longrightarrow>
    createSharingLink fetchFn tokenProvider itemId linkScope log =
      (Inl (Error ''Create sharing link response missing webUrl''),
       log @ [oneDriveLinkRequest (tokenProvider GRAPH_SCOPE) itemId linkScope]))"
proof (intro conjI impI)
  assume "length buffer \<le> SIMPLE_UPLOAD_LIMIT \<and>
    fetchFn (log @ [oneDriveContentRequest (tokenProvider GRAPH_SCOPE) filename contentType buffer]) = Inr res \<and>
    ok res \<and> bodyJson res = Inr data \<and>
    (\<not> truthy (j_id data) \<or> \<not> truthy (j_webUrl data) \<or> \<not> truthy (j_name data))"
  then show "uploadToOneDrive fetchFn tokenProvider buffer filename contentType log =
      (Inl (Error ''OneDrive upload response missing required fields''),
       log @ [oneDriveContentRequest (tokenProvider GRAPH_SCOPE) filename contentType buffer])"
    by (auto simp: uploadToOneDrive_def Let_def fetch_def)
next
  assume "length buffer \<le> SIMPLE_UPLOAD_LIMIT \<and>
    fetchFn (log @ [sharePointContentRequest (tokenProvider GRAPH_SCOPE) siteId filename contentType buffer]) = Inr res \<and>
    ok res \<and> bodyJson res = Inr data \<and>
    (\<not> truthy (j_id data) \<or> \<not> truthy (j_webUrl data) \<or> \<not> truthy (j_name data))"
  then show "uploadToSharePoint fetchFn tokenProvider buffer filename contentType siteId log =
      (Inl (Error ''SharePoint upload response missing required fields''),
       log @ [sharePointContentRequest (tokenProvider GRAPH_SCOPE) siteId filename contentType buffer])"
    by (auto simp: uploadToSharePoint_def Let_def fetch_def)
next
  assume "SIMPLE_UPLOAD_LIMIT < length buffer \<and>
    fetchFn (log @ [oneDriveSessionRequest (tokenProvider GRAPH_SCOPE) filename]) = Inr res \<and>
    ok res \<and> bodyJson res = Inr data \<and> \<not> truthy (j_uploadUrl data)"
  then show "uploadToOneDrive fetchFn tokenProvider buffer filename contentType log =
      (Inl (Error ''OneDrive create upload session response missing uploadUrl''),
       log @ [oneDriveSessionRequest (tokenProvider GRAPH_SCOPE) filename])"
    by (simp add: uploadToOneDrive_def Let_def fetch_def)
next
  assume "SIMPLE_UPLOAD_LIMIT < length buffer \<and>
    fetchFn (log @ [sharePointSessionRequest (tokenProvider GRAPH_SCOPE) siteId filename]) = Inr res \<and>
    ok res \<and> bodyJson res = Inr data \<and> \<not> truthy (j_uploadUrl data)"
  then show "uploadToSharePoint fetchFn tokenProvider buffer filename contentType siteId log =
      (Inl (Error ''SharePoint create upload session response missing uploadUrl''),
       log @ [sharePointSessionRequest (tokenProvider GRAPH_SCOPE) siteId filename])"
    by (simp add: uploadToSharePoint_def Let_def fetch_def)
next
  assume "fetchFn (log @ [driveItemRequest (tokenProvider GRAPH_SCOPE) siteId itemId]) = Inr res \<and>
    ok res \<and> bodyJson res = Inr data \<and>
    (\<not> truthy (j_eTag data) \<or> \<not> truthy (j_webDavUrl data) \<or> \<not> truthy (j_name data))"
  then show "getDriveItemProperties fetchFn tokenProvider siteId itemId log =
      (Inl (Error ''DriveItem response missing required properties (eTag, webDavUrl, or name)''),
       log @ [driveItemRequest (tokenProvider GRAPH_SCOPE) siteId itemId])"
    by (auto simp: getDriveItemProperties_def Let_def fetch_def)
next
  assume "fetchFn (log @ [sharingLinkRequest (tokenProvider GRAPH_SCOPE) siteId itemId
                      (orElse scopeParam organization) recipientObjectIds]) = Inr res \<and>
    ok res \<and> bodyJson res = Inr data \<and>
    (j_link data = None \<or> (\<exists>link. j_link data = Some link \<and> \<not> truthy (link_webUrl link)))"
  then show "createSharePointSharingLink fetchFn tokenProvider siteId itemId scopeParam
      recipientObjectIds log =
      (Inl (Error ''Create SharePoint sharing link response missing webUrl''),
       log @ [sharingLinkRequest (tokenProvider GRAPH_SCOPE) siteId itemId
                (orElse scopeParam organization) recipientObjectIds])"
    by (auto simp: createSharePointSharingLink_def Let_def fetch_def)
next
  assume "fetchFn (log @ [oneDriveLinkRequest (tokenProvider GRAPH_SCOPE) itemId linkScope]) = Inr res \<and>
    ok res \<and> bodyJson res = Inr data \<and>
    (j_link data = None \<or> (\<exists>link. j_link data = Some link \<and> \<not> truthy (link_webUrl link)))"
  then show "createSharingLink fetchFn tokenProvider itemId linkScope log =
      (Inl (Error ''Create sharing link response missing webUrl''),
       log @ [oneDriveLinkRequest (tokenProvider GRAPH_SCOPE) itemId linkScope])"
    by (auto simp: createSharingLink_def Let_def fetch_def)
qed

theorem missing_field_is_an_error_witness:
  "length oneMiB \<le> SIMPLE_UPLOAD_LIMIT \<and>
   scripted [jsonAnswer 200 itemWithoutName]
     [sharePointContentRequest ''token'' ''site'' ''f.bin'' None oneMiB] =
     jsonAnswer 200 itemWithoutName \<and>
   j_name itemWithoutName = None \<and>
   uploadToSharePoint (scripted [jsonAnswer 200 itemWithoutName]) sampleToken oneMiB ''f.bin'' None
       ''site'' [] =
     (Inl (Error ''SharePoint upload response missing required fields''),
      [sharePointContentRequest ''token'' ''site'' ''f.bin'' None oneMiB]) \<and>
   SIMPLE_UPLOAD_LIMIT < length tenMiB \<and>
   j_uploadUrl noFields = None \<and>
   uploadToOneDrive (scripted [jsonAnswer 200 noFields]) sampleToken tenMiB ''f.bin'' None [] =
     (Inl (Error ''OneDrive create upload session response missing uploadUrl''),
      [oneDriveSessionRequest ''token'' ''f.bin'']) \<and>
   j_eTag propsWithoutETag = None \<and>
   getDriveItemProperties (scripted [jsonAnswer 200 propsWithoutETag]) sampleToken ''site'' ''x'' [] =
     (Inl (Error ''DriveItem response missing required properties (eTag, webDavUrl, or name)''),
      [driveItemRequest ''token'' ''site'' ''x''])"
proof -
  let ?item = "\<lparr>status = 200, statusText = ''OK'', bodyText = Inr [], bodyJson = Inr itemWithoutName\<rparr>"
  let ?none = "\<lparr>status = 200, statusText = ''OK'', bodyText = Inr [], bodyJson = Inr noFields\<rparr>"
  let ?props = "\<lparr>status = 200, statusText = ''OK'', bodyText = Inr [], bodyJson = Inr propsWithoutETag\<rparr>"
  have a1: "scripted [jsonAnswer 200 itemWithoutName]
     [sharePointContentRequest ''token'' ''site'' ''f.bin'' None oneMiB] = jsonAnswer 200 itemWithoutName"
    by (simp add: scripted_def)
  have f: "j_name itemWithoutName = None" "j_uploadUrl noFields = None" "j_eTag propsWithoutETag = None"
    by (simp_all add: itemWithoutName_def noFields_def propsWithoutETag_def)
  have u1: "uploadToSharePoint (scripted [jsonAnswer 200 itemWithoutName]) sampleToken oneMiB ''f.bin''
       None ''site'' [] =
     (Inl (Error ''SharePoint upload response missing required fields''),
      [sharePointContentRequest ''token'' ''site'' ''f.bin'' None oneMiB])"
    using missing_field_is_an_error [of oneMiB "scripted [jsonAnswer 200 itemWithoutName]" "[]"
        sampleToken "''f.bin''" None ?item itemWithoutName "''site''"] small_oneMiB f
    by (simp add: scripted_def jsonAnswer_def ok_def sampleToken_def)
  have u2: "uploadToOneDrive (scripted [jsonAnswer 200 noFields]) sampleToken tenMiB ''f.bin'' None [] =
     (Inl (Error ''OneDrive create upload session response missing uploadUrl''),
      [oneDriveSessionRequest ''token'' ''f.bin''])"
    using missing_field_is_an_error [of tenMiB "scripted [jsonAnswer 200 noFields]" "[]"
        sampleToken "''f.bin''" None ?none noFields] large_tenMiB f
    by (simp add: scripted_def jsonAnswer_def ok_def sampleToken_def)
  have u3: "getDriveItemProperties (scripted [jsonAnswer 200 propsWithoutETag]) sampleToken ''site''
       ''x'' [] =
     (Inl (Error ''DriveItem response missing required properties (eTag, webDavUrl, or name)''),
      [driveItemRequest ''token'' ''site'' ''x''])"
    using missing_field_is_an_error [of _ "scripted [jsonAnswer 200 propsWithoutETag]" "[]"
        sampleToken _ _ ?props propsWithoutETag "''site''" "''x''"] f
    by (simp add: scripted_def jsonAnswer_def ok_def sampleToken_def)
  show ?thesis
    by (intro conjI small_oneMiB a1 f u1 large_tenMiB u2 u3)
qed

subsection \<open>Chat members\<close>

lemma filter_mapped_members:
  "filter (\<lambda>m. aadObjectId m \<noteq> [])
     (map (\<lambda>m. \<lparr>aadObjectId = orElse (userId m) [], member_displayName = displayName m\<rparr>) entries) =
   map (\<lambda>m. \<lparr>aadObjectId = the (userId m), member_displayName = displayName m\<rparr>)
     (filter (\<lambda>m. truthy (userId m)) entries)"
proof (induction entries)
  case Nil
  show ?case by simp
next
  case (Cons m entries)
  then show ?case by (cases "userId m") simp_all
qed

text \<open>
  C10. On a success (2xx) members response, getChatMembers returns exactly the entries
  whose \<open>userId\<close> is present and not empty, each as a ChatMember with that id and the
  entry's \<open>displayName\<close>, in the order of the response. It returns the empty list, not
  an error, when the body has no \<open>value\<close> array and when every entry is dropped: no
  field of the body is required.
\<close>

theorem chat_members_mapping:
  assumes "fetchFn (log @ [chatMembersRequest (tokenProvider GRAPH_SCOPE) chatId]) = Inr res"
    and "ok res" and "bodyJson res = Inr data"
  shows "getChatMembers fetchFn tokenProvider chatId log =
           (Inr (map (\<lambda>m. \<lparr>aadObjectId = the (userId m), member_displayName = displayName m\<rparr>)
                  (filter (\<lambda>m. truthy (userId m))
                     (case j_value data of None \<Rightarrow> [] | Some entries \<Rightarrow> entries))),
            log @ [chatMembersRequest (tokenProvider GRAPH_SCOPE) chatId]) \<and>
         (j_value data = None \<longrightarrow> fst (getChatMembers fetchFn tokenProvider chatId log) = Inr []) \<and>
         (\<forall>entries. j_value data = Some entries \<and> list_all (\<lambda>m. \<not> truthy (userId m)) entries \<longrightarrow>
            fst (getChatMembers fetchFn tokenProvider chatId log) = Inr [])"
proof -
  have run: "getChatMembers fetchFn tokenProvider chatId log =
           (Inr (map (\<lambda>m. \<lparr>aadObjectId = the (userId m), member_displayName = displayName m\<rparr>)
                  (filter (\<lambda>m. truthy (userId m))
                     (case j_value data of None \<Rightarrow> [] | Some entries \<Rightarrow> entries))),
            log @ [chatMembersRequest (tokenProvider GRAPH_SCOPE) chatId])"
    using assms
    by (cases "j_value data") (simp_all add: getChatMembers_def Let_def fetch_def filter_mapped_members)
  have dropped: "filter (\<lambda>m. truthy (userId m)) entries = []"
    if "list_all (\<lambda>m. \<not> truthy (userId m)) entries" for entries :: "member_json list"
    using that by (induction entries) simp_all
  show ?thesis
    by (intro conjI impI allI) (simp_all add: run dropped)
qed

theorem chat_members_mapping_witness:
  "scripted [jsonAnswer 200 (noFields\<lparr>j_value := Some memberEntries\<rparr>)]
     ([] @ [chatMembersRequest (sampleToken GRAPH_SCOPE) ''chat'']) =
     Inr \<lparr>status = 200, statusText = ''OK'', bodyText = Inr [],
          bodyJson = Inr (noFields\<lparr>j_value := Some memberEntries\<rparr>)\<rparr> \<and>
   getChatMembers (scripted [jsonAnswer 200 (noFields\<lparr>j_value := Some memberEntries\<rparr>)])
       sampleToken ''chat'' [] =
     (Inr [\<lparr>aadObjectId = ''a1'', member_displayName = Some ''Ann''\<rparr>,
           \<lparr>aadObjectId = ''c3'', member_displayName = None\<rparr>],
      [chatMembersRequest ''token'' ''chat'']) \<and>
   getChatMembers (scripted [jsonAnswer 200 noFields]) sampleToken ''chat'' [] =
     (Inr [], [chatMembersRequest ''token'' ''chat''])"
proof -
  let ?res = "\<lparr>status = 200, statusText = ''OK'', bodyText = Inr [],
          bodyJson = Inr (noFields\<lparr>j_value := Some memberEntries\<rparr>)\<rparr>"
  have ans: "scripted [jsonAnswer 200 (noFields\<lparr>j_value := Some memberEntries\<rparr>)]
     ([] @ [chatMembersRequest (sampleToken GRAPH_SCOPE) ''chat'']) = Inr ?res"
    by (simp add: scripted_def jsonAnswer_def)
  have okr: "ok ?res" by (simp add: ok_def)
  have js: "bodyJson ?res = Inr (noFields\<lparr>j_value := Some memberEntries\<rparr>)" by simp
  let ?empty = "\<lparr>status = 200, statusText = ''OK'', bodyText = Inr [], bodyJson = Inr noFields\<rparr>"
  have ans': "scripted [jsonAnswer 200 noFields]
     ([] @ [chatMembersRequest (sampleToken GRAPH_SCOPE) ''chat'']) = Inr ?empty"
    by (simp add: scripted_def jsonAnswer_def)
  have okr': "ok ?empty" by (simp add: ok_def)
  have js': "bodyJson ?empty = Inr noFields" by simp
  have omitted: "getChatMembers (scripted [jsonAnswer 200 noFields]) sampleToken ''chat'' [] =
     (Inr [], [chatMembersRequest ''token'' ''chat''])"
    using chat_members_mapping [where fetchFn = "scripted [jsonAnswer 200 noFields]"
        and tokenProvider = sampleToken and log = "[]" and chatId = "''chat''", OF ans' okr' js']
    by (simp add: sampleToken_def noFields_def)
  show ?thesis
    using chat_members_mapping [where fetchFn = "scripted [jsonAnswer 200 (noFields\<lparr>j_value := Some memberEntries\<rparr>)]"
        and tokenProvider = sampleToken and log = "[]" and chatId = "''chat''", OF ans okr js] ans omitted
    by (simp add: memberEntries_def sampleToken_def noFields_def)
qed

subsection \<open>Sharing links\<close>

text \<open>
  C9. createSharePointSharingLink issues one request, a POST to
  \<open>{root}/sites/{siteId}/drive/items/{itemId}/createLink\<close>, where the root is the beta
  root for the scope \<open>users\<close> and the v1.0 root otherwise (\<open>organization\<close>, also
  the default). Its body is \<open>{type: "view", scope}\<close>, with a \<open>recipients\<close> member
  (one \<open>{objectId}\<close> per recipient) added exactly when the scope is \<open>users\<close> and
  the recipient list is given and not empty.
\<close>

theorem sharing_link_request:
  "snd (createSharePointSharingLink fetchFn tokenProvider siteId itemId scopeParam recipientObjectIds log) =
     log @
     [\<lparr>url = (if scopeParam = Some users then GRAPH_BETA else GRAPH_ROOT) @ ''/sites/'' @ siteId @
              ''/drive/items/'' @ itemId @ ''/createLink'',
       http_method = Some ''POST'',
       headers = [(''Authorization'', ''Bearer '' @ tokenProvider GRAPH_SCOPE),
                  (''Content-Type'', ''application/json'')],
       body = Some (JSON_stringify (JObject
         ([(''type'', JString ''view''),
           (''scope'', JString (if scopeParam = Some users then ''users'' else ''organization''))] @
          (if scopeParam = Some users \<and> recipientObjectIds \<noteq> None \<and> recipientObjectIds \<noteq> Some []
           then [(''recipients'',
                  JArray (map (\<lambda>id. JObject [(''objectId'', JString id)]) (the recipientObjectIds)))]
           else []))))\<rparr>]"
proof -
  have scope: "(orElse scopeParam organization = users) = (scopeParam = Some users)"
    by (cases scopeParam) auto
  have has: "hasRecipients recipientObjectIds =
      (recipientObjectIds \<noteq> None \<and> recipientObjectIds \<noteq> Some [])"
    by (cases recipientObjectIds) simp_all
  have "snd (createSharePointSharingLink fetchFn tokenProvider siteId itemId scopeParam
          recipientObjectIds log) =
        log @ [sharingLinkRequest (tokenProvider GRAPH_SCOPE) siteId itemId
                 (orElse scopeParam organization) recipientObjectIds]"
    by (simp add: createSharePointSharingLink_def Let_def fetch_def split: sum.split option.split)
  then show ?thesis
    by (simp add: sharingLinkRequest_def sharingLinkBody_def Let_def scope has)
qed

theorem sharing_link_request_witness:
  "snd (createSharePointSharingLink (scripted []) sampleToken ''site'' ''x'' (Some users)
          (Some [''a1'', ''c3'']) []) =
     [\<lparr>url = ''https://graph.microsoft.com/beta/sites/site/drive/items/x/createLink'',
       http_method = Some ''POST'',
       headers = [(''Authorization'', ''Bearer token''), (''Content-Type'', ''application/json'')],
       body = Some (JSON_stringify (JObject
         [(''type'', JString ''view''), (''scope'', JString ''users''),
          (''recipients'', JArray [JObject [(''objectId'', JString ''a1'')],
                                   JObject [(''objectId'', JString ''c3'')]])]))\<rparr>] \<and>
   snd (createSharePointSharingLink (scripted []) sampleToken ''site'' ''x'' (Some organization)
          (Some [''a1'', ''c3'']) []) =
     [\<lparr>url = ''https://graph.microsoft.com/v1.0/sites/site/drive/items/x/createLink'',
       http_method = Some ''POST'',
       headers = [(''Authorization'', ''Bearer token''), (''Content-Type'', ''application/json'')],
       body = Some (JSON_stringify (JObject
         [(''type'', JString ''view''), (''scope'', JString ''organization'')]))\<rparr>] \<and>
   snd (createSharePointSharingLink (scripted []) sampleToken ''site'' ''x'' None None []) =
     [\<lparr>url = ''https://graph.microsoft.com/v1.0/sites/site/drive/items/x/createLink'',
       http_method = Some ''POST'',
       headers = [(''Authorization'', ''Bearer token''), (''Content-Type'', ''application/json'')],
       body = Some (JSON_stringify (JObject
         [(''type'', JString ''view''), (''scope'', JString ''organization'')]))\<rparr>]"
  using sharing_link_request [of "scripted []" sampleToken "''site''" "''x''" "Some users"
      "Some [''a1'', ''c3'']" "[]"]
    sharing_link_request [of "scripted []" sampleToken "''site''" "''x''" "Some organization"
      "Some [''a1'', ''c3'']" "[]"]
    sharing_link_request [of "scripted []" sampleToken "''site''" "''x''" None None "[]"]
  by (simp add: GRAPH_BETA_def GRAPH_ROOT_def sampleToken_def)

subsection \<open>Upload and share\<close>

lemma determineScope_cases:
  "determineScope fetchFn tokenProvider chatId usePerUserSharing log =
     (if usePerUserSharing = Some True \<and> truthy chatId then
        (case fst (getChatMembers fetchFn tokenProvider (the chatId) log) of
           Inr members \<Rightarrow>
             (if members \<noteq> [] then (users, Some (map aadObjectId members))
              else (organization, None))
         | Inl e \<Rightarrow> (organization, None),
         snd (getChatMembers fetchFn tokenProvider (the chatId) log))
      else ((organization, None), log))"
  by (simp add: determineScope_def split: prod.split sum.split)

text \<open>
  C6. In uploadAndShareSharePoint, once the upload has succeeded, the link is requested
  with the scope \<open>users\<close> if and only if per-user sharing was asked for, a (non-empty)
  chat id was supplied, and the member lookup succeeded with at least one member; the
  recipients are then the members' ids. In every other case, in particular when the
  lookup fails for whatever reason or returns no member, the link is requested with the
  scope \<open>organization\<close> and no recipients. The outcome of the operation is then the
  outcome of the link creation alone: an error of the member lookup never reaches the
  caller.
\<close>

theorem per_user_scope_fallback:
  assumes "uploadToSharePoint fetchFn tokenProvider buffer filename contentType siteId log =
             (Inr uploaded, log1)"
    and "determineScope fetchFn tokenProvider chatId usePerUserSharing log1 =
             ((scope, recipientObjectIds), log2)"
  shows "(scope = users \<longleftrightarrow>
            usePerUserSharing = Some True \<and> truthy chatId \<and>
            (\<exists>members. fst (getChatMembers fetchFn tokenProvider (the chatId) log1) = Inr members \<and>
                       members \<noteq> [])) \<and>
         (scope = users \<longrightarrow>
            (\<exists>members. fst (getChatMembers fetchFn tokenProvider (the chatId) log1) = Inr members \<and>
                       recipientObjectIds = Some (map aadObjectId members))) \<and>
         (scope \<noteq> users \<longrightarrow> scope = organization \<and> recipientObjectIds = None) \<and>
         log2 = (if usePerUserSharing = Some True \<and> truthy chatId
                 then snd (getChatMembers fetchFn tokenProvider (the chatId) log1) else log1) \<and>
         snd (uploadAndShareSharePoint fetchFn tokenProvider buffer filename contentType siteId chatId
                usePerUserSharing log) =
           log2 @ [sharingLinkRequest (tokenProvider GRAPH_SCOPE) siteId (item_id uploaded) scope
                     recipientObjectIds] \<and>
         fst (uploadAndShareSharePoint fetchFn tokenProvider buffer filename contentType siteId chatId
                usePerUserSharing log) =
           (case fst (createSharePointSharingLink fetchFn tokenProvider siteId (item_id uploaded)
                        (Some scope) recipientObjectIds log2) of
              Inl e \<Rightarrow> Inl e
            | Inr shareLink \<Rightarrow>
                Inr \<lparr>share_itemId = item_id uploaded, share_webUrl = item_webUrl uploaded,
                     shareUrl = link_url shareLink, share_name = item_name uploaded\<rparr>)"
proof -
  let ?lookup = "getChatMembers fetchFn tokenProvider (the chatId) log1"
  note ds = assms(2) [unfolded determineScope_cases]
  have iff: "scope = users \<longleftrightarrow>
            usePerUserSharing = Some True \<and> truthy chatId \<and>
            (\<exists>members. fst ?lookup = Inr members \<and> members \<noteq> [])"
    using ds by (auto split: if_splits sum.splits)
  have recips: "scope = users \<longrightarrow>
            (\<exists>members. fst ?lookup = Inr members \<and> recipientObjectIds = Some (map aadObjectId members))"
    using ds by (auto split: if_splits sum.splits)
  have org: "scope \<noteq> users \<longrightarrow> scope = organization \<and> recipientObjectIds = None"
    using ds by (auto split: if_splits sum.splits)
  have log2: "log2 = (if usePerUserSharing = Some True \<and> truthy chatId then snd ?lookup else log1)"
    using ds by (auto split: if_splits)
  have link_log: "snd (createSharePointSharingLink fetchFn tokenProvider siteId (item_id uploaded)
                        (Some scope) recipientObjectIds log2) =
      log2 @ [sharingLinkRequest (tokenProvider GRAPH_SCOPE) siteId (item_id uploaded) scope
                recipientObjectIds]"
    by (simp add: createSharePointSharingLink_def Let_def fetch_def split: sum.split option.split)
  have run: "uploadAndShareSharePoint fetchFn tokenProvider buffer filename contentType siteId chatId
                usePerUserSharing log =
      (case createSharePointSharingLink fetchFn tokenProvider siteId (item_id uploaded)
                       (Some scope) recipientObjectIds log2 of
         (Inl e, log3) \<Rightarrow> (Inl e, log3)
       | (Inr shareLink, log3) \<Rightarrow>
           (Inr \<lparr>share_itemId = item_id uploaded, share_webUrl = item_webUrl uploaded,
                 shareUrl = link_url shareLink, share_name = item_name uploaded\<rparr>, log3))"
    using assms by (simp add: uploadAndShareSharePoint_def)
  have trace: "snd (uploadAndShareSharePoint fetchFn tokenProvider buffer filename contentType siteId
                chatId usePerUserSharing log) =
           log2 @ [sharingLinkRequest (tokenProvider GRAPH_SCOPE) siteId (item_id uploaded) scope
                     recipientObjectIds]"
    using link_log unfolding run by (auto split: prod.split sum.split)
  have result: "fst (uploadAndShareSharePoint fetchFn tokenProvider buffer filename contentType siteId
                chatId usePerUserSharing log) =
           (case fst (createSharePointSharingLink fetchFn tokenProvider siteId (item_id uploaded)
                        (Some scope) recipientObjectIds log2) of
              Inl e \<Rightarrow> Inl e
            | Inr shareLink \<Rightarrow>
                Inr \<lparr>share_itemId = item_id uploaded, share_webUrl = item_webUrl uploaded,
                     shareUrl = link_url shareLink, share_name = item_name uploaded\<rparr>)"
    unfolding run by (auto split: prod.split sum.split)
  show ?thesis
    by (intro conjI iff recips org log2 trace result)
qed

lemma not_large_oneMiB: "\<not> SIMPLE_UPLOAD_LIMIT < length oneMiB"
  using small_oneMiB by simp

lemmas eval_call = Let_def fetch_scripted jsonAnswer_def plainAnswer_def ok_def noFields_def
  sampleToken_def uploadedItem_def linkAnswer_def textOrEmpty_def httpFailure_def

lemma upload_then:
  "uploadToSharePoint (scripted (jsonAnswer 200 uploadedItem # answers)) sampleToken oneMiB ''f.bin''
     None ''site'' [] =
   (Inr \<lparr>item_id = ''x'', item_webUrl = ''u'', item_name = ''f''\<rparr>,
    [sharePointContentRequest ''token'' ''site'' ''f.bin'' None oneMiB])"
  by (simp add: uploadToSharePoint_def not_large_oneMiB eval_call)

theorem per_user_scope_fallback_witness:
  "uploadToSharePoint scenario4 sampleToken oneMiB ''f.bin'' None ''site'' [] =
     (Inr \<lparr>item_id = ''x'', item_webUrl = ''u'', item_name = ''f''\<rparr>,
      [sharePointContentRequest ''token'' ''site'' ''f.bin'' None oneMiB]) \<and>
   getChatMembers scenario4 sampleToken ''chat''
       [sharePointContentRequest ''token'' ''site'' ''f.bin'' None oneMiB] =
     (Inl (Error ''Get chat members failed: 403 Forbidden - denied''),
      [sharePointContentRequest ''token'' ''site'' ''f.bin'' None oneMiB,
       chatMembersRequest ''token'' ''chat'']) \<and>
   uploadAndShareSharePoint scenario4 sampleToken oneMiB ''f.bin'' None ''site'' (Some ''chat'')
       (Some True) [] =
     (Inr \<lparr>share_itemId = ''x'', share_webUrl = ''u'', shareUrl = ''https://share'',
            share_name = ''f''\<rparr>,
      [sharePointContentRequest ''token'' ''site'' ''f.bin'' None oneMiB,
       chatMembersRequest ''token'' ''chat'',
       sharingLinkRequest ''token'' ''site'' ''x'' organization None]) \<and>
   uploadAndShareSharePoint scenario3 sampleToken oneMiB ''f.bin'' None ''site'' (Some ''chat'')
       (Some True) [] =
     (Inr \<lparr>share_itemId = ''x'', share_webUrl = ''u'', shareUrl = ''https://share'',
            share_name = ''f''\<rparr>,
      [sharePointContentRequest ''token'' ''site'' ''f.bin'' None oneMiB,
       chatMembersRequest ''token'' ''chat'',
       sharingLinkRequest ''token'' ''site'' ''x'' organization None]) \<and>
   uploadAndShareSharePoint groupChat sampleToken oneMiB ''f.bin'' None ''site'' (Some ''chat'')
       (Some True) [] =
     (Inr \<lparr>share_itemId = ''x'', share_webUrl = ''u'', shareUrl = ''https://share'',
            share_name = ''f''\<rparr>,
      [sharePointContentRequest ''token'' ''site'' ''f.bin'' None oneMiB,
       chatMembersRequest ''token'' ''chat'',
       sharingLinkRequest ''token'' ''site'' ''x'' users (Some [''a1'', ''c3''])])"
proof -
  let ?c = "sharePointContentRequest ''token'' ''site'' ''f.bin'' None oneMiB"
  let ?m = "chatMembersRequest ''token'' ''chat''"
  let ?item = "\<lparr>item_id = ''x'', item_webUrl = ''u'', item_name = ''f''\<rparr>"
  let ?shared = "\<lparr>share_itemId = ''x'', share_webUrl = ''u'', shareUrl = ''https://share'',
            share_name = ''f''\<rparr>"
  have up4: "uploadToSharePoint scenario4 sampleToken oneMiB ''f.bin'' None ''site'' [] = (Inr ?item, [?c])"
    and up3: "uploadToSharePoint scenario3 sampleToken oneMiB ''f.bin'' None ''site'' [] = (Inr ?item, [?c])"
    and upg: "uploadToSharePoint groupChat sampleToken oneMiB ''f.bin'' None ''site'' [] = (Inr ?item, [?c])"
    by (simp_all add: scenario4_def scenario3_def groupChat_def upload_then)
  have dec: "String_of 403 = ''403''" by (simp add: String_of.simps digitChar_def)
  have m4: "getChatMembers scenario4 sampleToken ''chat'' [?c] =
     (Inl (Error ''Get chat members failed: 403 Forbidden - denied''), [?c, ?m])"
    by (simp add: getChatMembers_def scenario4_def eval_call dec)
  have m3: "getChatMembers scenario3 sampleToken ''chat'' [?c] = (Inr [], [?c, ?m])"
    by (simp add: getChatMembers_def scenario3_def eval_call)
  have mg: "getChatMembers groupChat sampleToken ''chat'' [?c] =
     (Inr [\<lparr>aadObjectId = ''a1'', member_displayName = Some ''Ann''\<rparr>,
           \<lparr>aadObjectId = ''c3'', member_displayName = None\<rparr>], [?c, ?m])"
    by (simp add: getChatMembers_def groupChat_def memberEntries_def eval_call)
  have ds4: "determineScope scenario4 sampleToken (Some ''chat'') (Some True) [?c] =
      ((organization, None), [?c, ?m])"
    and ds3: "determineScope scenario3 sampleToken (Some ''chat'') (Some True) [?c] =
      ((organization, None), [?c, ?m])"
    and dsg: "determineScope groupChat sampleToken (Some ''chat'') (Some True) [?c] =
      ((users, Some [''a1'', ''c3'']), [?c, ?m])"
    by (simp_all add: determineScope_def m4 m3 mg)
  have link: "fst (createSharePointSharingLink (scripted [a, b, linkAnswer]) sampleToken ''site'' ''x''
        (Some scope) recipientObjectIds [?c, ?m]) = Inr \<lparr>link_url = ''https://share''\<rparr>"
    for a b scope recipientObjectIds
    by (simp add: createSharePointSharingLink_def eval_call)
  have r4: "uploadAndShareSharePoint scenario4 sampleToken oneMiB ''f.bin'' None ''site'' (Some ''chat'')
       (Some True) [] = (Inr ?shared, [?c, ?m, sharingLinkRequest ''token'' ''site'' ''x'' organization None])"
    using per_user_scope_fallback [OF up4 ds4] link
    by (simp add: prod_eq_iff scenario4_def sampleToken_def)
  have r3: "uploadAndShareSharePoint scenario3 sampleToken oneMiB ''f.bin'' None ''site'' (Some ''chat'')
       (Some True) [] = (Inr ?shared, [?c, ?m, sharingLinkRequest ''token'' ''site'' ''x'' organization None])"
    using per_user_scope_fallback [OF up3 ds3] link
    by (simp add: prod_eq_iff scenario3_def sampleToken_def)
  have rg: "uploadAndShareSharePoint groupChat sampleToken oneMiB ''f.bin'' None ''site'' (Some ''chat'')
       (Some True) [] =
     (Inr ?shared, [?c, ?m, sharingLinkRequest ''token'' ''site'' ''x'' users (Some [''a1'', ''c3''])])"
    using per_user_scope_fallback [OF upg dsg] link
    by (simp add: prod_eq_iff groupChat_def sampleToken_def)
  show ?thesis
    by (intro conjI up4 m4 r4 r3 rg)
qed

text \<open>
  C8 (amended). createSharePointSharingLink does not require the recipient list of a
  \<open>users\<close>-scope link. A call with the scope \<open>users\<close> and an absent or empty list is
  not rejected: it issues the \<open>createLink\<close> POST on the beta root with the body
  \<open>{type: "view", scope: "users"}\<close>, with no \<open>recipients\<close> member, and it returns the
  link of a 2xx answer as any other call does. The \<open>recipients\<close> member is sent exactly
  when the list is given and not empty. The one caller in the module,
  uploadAndShareSharePoint, passes the scope \<open>users\<close> only with a list that is given and
  not empty.
\<close>

theorem users_scope_without_recipients:
  fixes fetchFn :: fetchFn and tokenProvider :: tokenProvider and siteId itemId :: string
    and recipientObjectIds :: "string list option" and log :: "request list"
  defines "createLink \<equiv> \<lambda>members.
           \<lparr>url = ''https://graph.microsoft.com/beta/sites/'' @ siteId @ ''/drive/items/'' @ itemId @
                  ''/createLink'',
            http_method = Some ''POST'',
            headers = [(''Authorization'', ''Bearer '' @ tokenProvider ''https://graph.microsoft.com''),
                       (''Content-Type'', ''application/json'')],
            body = Some (JSON_stringify (JObject
              ([(''type'', JString ''view''), (''scope'', JString ''users'')] @ members)))\<rparr>"
    and "run \<equiv> createSharePointSharingLink fetchFn tokenProvider siteId itemId (Some users)
                  recipientObjectIds log"
  shows
    "(recipientObjectIds = None \<or> recipientObjectIds = Some [] \<longrightarrow>
        snd run = log @ [createLink []] \<and>
        (\<forall>res data link webUrl.
           fetchFn (log @ [createLink []]) = Inr res \<and> 200 \<le> status res \<and> status res \<le> 299 \<and>
           bodyJson res = Inr data \<and> j_link data = Some link \<and> link_webUrl link = Some webUrl \<and>
           webUrl \<noteq> [] \<longrightarrow>
           fst run = Inr \<lparr>link_url = webUrl\<rparr>)) \<and>
     (\<forall>ids. recipientObjectIds = Some ids \<and> ids \<noteq> [] \<longrightarrow>
        snd run =
          log @ [createLink [(''recipients'',
                              JArray (map (\<lambda>id. JObject [(''objectId'', JString id)]) ids))]]) \<and>
     (\<forall>chatId usePerUserSharing recipients.
        fst (determineScope fetchFn tokenProvider chatId usePerUserSharing log) = (users, recipients) \<longrightarrow>
        (\<exists>ids. recipients = Some ids \<and> ids \<noteq> []))"
proof -
  have req: "sharingLinkRequest (tokenProvider GRAPH_SCOPE) siteId itemId users recipientObjectIds =
      createLink (if hasRecipients recipientObjectIds
                  then [(''recipients'',
                         JArray (map (\<lambda>id. JObject [(''objectId'', JString id)])
                                   (the recipientObjectIds)))]
                  else [])"
    by (simp add: sharingLinkRequest_def sharingLinkBody_def createLink_def GRAPH_BETA_def
        GRAPH_SCOPE_def)
  have trace: "snd run =
      log @ [sharingLinkRequest (tokenProvider GRAPH_SCOPE) siteId itemId users recipientObjectIds]"
    by (simp add: run_def createSharePointSharingLink_def Let_def fetch_def
        split: sum.split option.split)
  show ?thesis
  proof (intro conjI impI allI)
    assume none: "recipientObjectIds = None \<or> recipientObjectIds = Some []"
    then have no: "\<not> hasRecipients recipientObjectIds" by auto
    show "snd run = log @ [createLink []]"
      using trace [unfolded req] no by simp
    show "fst run = Inr \<lparr>link_url = webUrl\<rparr>"
      if "fetchFn (log @ [createLink []]) = Inr res \<and> 200 \<le> status res \<and> status res \<le> 299 \<and>
           bodyJson res = Inr data \<and> j_link data = Some link \<and> link_webUrl link = Some webUrl \<and>
           webUrl \<noteq> []"
      for res data link webUrl
      using that no req
      by (simp add: run_def createSharePointSharingLink_def Let_def fetch_def ok_def)
  next
    fix ids
    assume "recipientObjectIds = Some ids \<and> ids \<noteq> []"
    then show "snd run =
          log @ [createLink [(''recipients'',
                              JArray (map (\<lambda>id. JObject [(''objectId'', JString id)]) ids))]]"
      using trace [unfolded req] by simp
  next
    fix chatId usePerUserSharing recipients
    assume "fst (determineScope fetchFn tokenProvider chatId usePerUserSharing log) = (users, recipients)"
    then show "\<exists>ids. recipients = Some ids \<and> ids \<noteq> []"
      by (auto simp: determineScope_cases split: if_splits sum.splits)
  qed
qed

theorem users_scope_without_recipients_witness:
  "createSharePointSharingLink (scripted [linkAnswer]) sampleToken ''site'' ''x'' (Some users)
       (Some []) [] =
     (Inr \<lparr>link_url = ''https://share''\<rparr>,
      [\<lparr>url = ''https://graph.microsoft.com/beta/sites/site/drive/items/x/createLink'',
        http_method = Some ''POST'',
        headers = [(''Authorization'', ''Bearer token''), (''Content-Type'', ''application/json'')],
        body = Some (JSON_stringify (JObject
          [(''type'', JString ''view''), (''scope'', JString ''users'')]))\<rparr>]) \<and>
   snd (createSharePointSharingLink (scripted [linkAnswer]) sampleToken ''site'' ''x'' (Some users)
          (Some [''a1'', ''c3'']) []) =
     [\<lparr>url = ''https://graph.microsoft.com/beta/sites/site/drive/items/x/createLink'',
       http_method = Some ''POST'',
       headers = [(''Authorization'', ''Bearer token''), (''Content-Type'', ''application/json'')],
       body = Some (JSON_stringify (JObject
         [(''type'', JString ''view''), (''scope'', JString ''users''),
          (''recipients'', JArray [JObject [(''objectId'', JString ''a1'')],
                                   JObject [(''objectId'', JString ''c3'')]])]))\<rparr>] \<and>
   fst (determineScope groupChat sampleToken (Some ''chat'') (Some True)
          [sharePointContentRequest ''token'' ''site'' ''f.bin'' None oneMiB]) =
     (users, Some [''a1'', ''c3''])"
proof -
  have tok: "sampleToken ''https://graph.microsoft.com'' = ''token''"
    by (simp add: sampleToken_def)
  note empty = users_scope_without_recipients [where recipientObjectIds = "Some []"
      and fetchFn = "scripted [linkAnswer]" and log = "[]" and siteId = "''site''"
      and itemId = "''x''" and tokenProvider = sampleToken, unfolded tok]
  note given = users_scope_without_recipients [where recipientObjectIds = "Some [''a1'', ''c3'']"
      and fetchFn = "scripted [linkAnswer]" and log = "[]" and siteId = "''site''"
      and itemId = "''x''" and tokenProvider = sampleToken, unfolded tok]
  have ans: "scripted [linkAnswer] [req] =
      Inr \<lparr>status = 200, statusText = ''OK'', bodyText = Inr [],
           bodyJson = Inr (noFields\<lparr>j_link := Some \<lparr>link_webUrl = Some ''https://share''\<rparr>\<rparr>)\<rparr>"
    for req
    by (simp add: scripted_def linkAnswer_def jsonAnswer_def)
  have e_snd: "snd (createSharePointSharingLink (scripted [linkAnswer]) sampleToken ''site'' ''x''
      (Some users) (Some []) []) =
     [\<lparr>url = ''https://graph.microsoft.com/beta/sites/site/drive/items/x/createLink'',
       http_method = Some ''POST'',
       headers = [(''Authorization'', ''Bearer token''), (''Content-Type'', ''application/json'')],
       body = Some (JSON_stringify (JObject
         [(''type'', JString ''view''), (''scope'', JString ''users'')]))\<rparr>]"
    using empty by simp
  have e_fst: "fst (createSharePointSharingLink (scripted [linkAnswer]) sampleToken ''site'' ''x''
      (Some users) (Some []) []) = Inr \<lparr>link_url = ''https://share''\<rparr>"
    using empty ans by (simp add: noFields_def)
  have whole: "createSharePointSharingLink (scripted [linkAnswer]) sampleToken ''site'' ''x''
       (Some users) (Some []) [] =
     (Inr \<lparr>link_url = ''https://share''\<rparr>,
      [\<lparr>url = ''https://graph.microsoft.com/beta/sites/site/drive/items/x/createLink'',
        http_method = Some ''POST'',
        headers = [(''Authorization'', ''Bearer token''), (''Content-Type'', ''application/json'')],
        body = Some (JSON_stringify (JObject
          [(''type'', JString ''view''), (''scope'', JString ''users'')]))\<rparr>])"
    using e_fst e_snd by (simp add: prod_eq_iff)
  have g: "snd (createSharePointSharingLink (scripted [linkAnswer]) sampleToken ''site'' ''x''
      (Some users) (Some [''a1'', ''c3'']) []) =
     [\<lparr>url = ''https://graph.microsoft.com/beta/sites/site/drive/items/x/createLink'',
       http_method = Some ''POST'',
       headers = [(''Authorization'', ''Bearer token''), (''Content-Type'', ''application/json'')],
       body = Some (JSON_stringify (JObject
         [(''type'', JString ''view''), (''scope'', JString ''users''),
          (''recipients'', JArray [JObject [(''objectId'', JString ''a1'')],
                                   JObject [(''objectId'', JString ''c3'')]])]))\<rparr>]"
    using given by simp
  have members: "getChatMembers groupChat sampleToken ''chat''
        [sharePointContentRequest ''token'' ''site'' ''f.bin'' None oneMiB] =
     (Inr [\<lparr>aadObjectId = ''a1'', member_displayName = Some ''Ann''\<rparr>,
           \<lparr>aadObjectId = ''c3'', member_displayName = None\<rparr>],
      [sharePointContentRequest ''token'' ''site'' ''f.bin'' None oneMiB,
       chatMembersRequest ''token'' ''chat''])"
    by (simp add: getChatMembers_def groupChat_def memberEntries_def eval_call)
  have scope: "fst (determineScope groupChat sampleToken (Some ''chat'') (Some True)
          [sharePointContentRequest ''token'' ''site'' ''f.bin'' None oneMiB]) =
     (users, Some [''a1'', ''c3''])"
    by (simp add: determineScope_def members)
  show ?thesis
    by (intro conjI whole g scope)
qed

text \<open>
  The claim as first stated has the recipient list required. A call with the scope
  \<open>users\<close> and no recipient list at all goes out on the beta root and returns the link
  the server answers.
\<close>

theorem users_scope_without_recipients_counterexample:
  "createSharePointSharingLink (scripted [linkAnswer]) sampleToken ''site'' ''x'' (Some users) None [] =
     (Inr \<lparr>link_url = ''https://share''\<rparr>,
      [\<lparr>url = ''https://graph.microsoft.com/beta/sites/site/drive/items/x/createLink'',
        http_method = Some ''POST'',
        headers = [(''Authorization'', ''Bearer token''), (''Content-Type'', ''application/json'')],
        body = Some (JSON_stringify (JObject
          [(''type'', JString ''view''), (''scope'', JString ''users'')]))\<rparr>])"
  by (simp add: createSharePointSharingLink_def sharingLinkRequest_def sharingLinkBody_def
      GRAPH_BETA_def GRAPH_SCOPE_def eval_call)

end
